theory Spec2Isabelle
  imports Complex_Main
begin

section \<open>Face touch monitor: data model\<close>

text \<open>
  The monitor is one JavaScript module working on a single mutable object \<open>state\<close>.
  JavaScript numbers are modelled as reals; the value \<open>Infinity\<close>, which the code
  produces as the start value of a minimum and by dividing by a zero sensitivity, is
  written out as a constructor of its own, as are \<open>-Infinity\<close> and \<open>NaN\<close>. Reading a field of \<open>undefined\<close> (an array
  read out of range followed by \<open>.x\<close>) throws a \<open>TypeError\<close>; it is a value of the
  result type.
\<close>

datatype error = TypeError

datatype num = Fin real | PosInf | NegInf | NaN

text \<open>\<open>a < b\<close> on such numbers: false whenever a side is \<open>NaN\<close>.\<close>

fun num_lt :: "num \<Rightarrow> num \<Rightarrow> bool" where
  "num_lt (Fin a) (Fin b) = (a < b)"
| "num_lt (Fin a) PosInf = True"
| "num_lt (Fin a) NegInf = False"
| "num_lt (Fin a) NaN = False"
| "num_lt NegInf (Fin b) = True"
| "num_lt NegInf PosInf = True"
| "num_lt NegInf NegInf = False"
| "num_lt NegInf NaN = False"
| "num_lt PosInf t = False"
| "num_lt NaN t = False"

text \<open>\<open>a / b\<close> for finite \<open>a\<close> and \<open>b\<close> (a zero divisor is \<open>+0\<close>).\<close>

definition js_div :: "real \<Rightarrow> real \<Rightarrow> num" where
  "js_div a b =
     (if b \<noteq> 0 then Fin (a / b)
      else if 0 < a then PosInf
      else if a < 0 then NegInf
      else NaN)"

text \<open>A landmark as the landmarkers deliver it (normalised coordinates).\<close>

record landmark =
  lm_x :: real
  lm_y :: real
  lm_z :: real
  lm_visibility :: real

text \<open>A point in pixel space, as built by \<open>checkFaceTouch\<close>.\<close>

record point =
  pt_x :: real
  pt_y :: real
  pt_z :: real

text \<open>The keys of \<open>FACE_REGIONS\<close> and of \<open>state.settings.zones\<close>.\<close>

datatype zone = Mouth | Nose | LeftEye | RightEye | LeftCheek | RightCheek | Chin

record zone_flags =
  mouth :: bool
  nose :: bool
  leftEye :: bool
  rightEye :: bool
  leftCheek :: bool
  rightCheek :: bool
  chin :: bool

record posture_settings =
  enabled :: bool
  posture_sensitivity :: real
  headForwardThreshold :: real
  shoulderSlouchThreshold :: real
  spineAngleThreshold :: real
  posture_alertCooldownMs :: real

record settings =
  sensitivity :: real
  alertCooldownMs :: real
  soundEnabled :: bool
  notifyEnabled :: bool
  visualAlertEnabled :: bool
  zones :: zone_flags
  posture :: posture_settings

text \<open>
  What the alert functions hand to the outside: one marker per call of an alert function,
  followed by the requests it makes of the sinks (tone, flash, notification), each under
  its settings flag.
\<close>

datatype alert = TouchOnset | TouchContinuous | PostureOnset | PostureContinuous

datatype effect = Alert alert | Beep nat nat | Flash | Notification

text \<open>The two callbacks handed to \<open>setInterval\<close>.\<close>

datatype callback = TouchRepeat | PostureRepeat

text \<open>
  The object \<open>state\<close>, with the fields the detection and alert code reads or writes.
  \<open>canvas_width\<close> and \<open>canvas_height\<close> are \<open>state.canvas.width\<close> and
  \<open>state.canvas.height\<close>. The last four fields are the host: the intervals that
  \<open>setInterval\<close> has created and \<open>clearInterval\<close> has not yet cleared (handle,
  callback, period), the timeouts that \<open>setTimeout\<close> has created and that have not yet
  run (handle, delay), the next handle the host gives out, and the effects emitted so far
  (newest last). A handle \<open>k\<close> stands for the positive integer the host returns, so
  every handle is truthy.
\<close>

record state =
  isRunning :: bool
  animationId :: "nat option"
  canvas_width :: real
  canvas_height :: real
  touchCount :: nat
  lastTouchTime :: "real option"
  postureAlertCount :: nat
  lastPostureAlertTime :: "real option"
  alertCooldown :: bool
  isTouching :: bool
  wasTouching :: bool
  continuousBeepTimer :: "nat option"
  isBadPosture :: bool
  wasBadPosture :: bool
  postureBeepTimer :: "nat option"
  currentPostureIssue :: "string option"
  settings :: settings
  lastTouchedZone :: "zone option"
  intervals :: "(nat \<times> callback \<times> real) list"
  timeouts :: "(nat \<times> real) list"
  nextTimerId :: nat
  emitted :: "effect list"

section \<open>Face touch detection\<close>

definition FACE_REGIONS :: "zone \<Rightarrow> nat list" where
  "FACE_REGIONS r = (case r of
     Mouth \<Rightarrow> [0, 13, 14, 17, 37, 39, 40, 61, 78, 80, 81, 82, 84, 87, 88, 91, 95, 146, 178,
               181, 185, 191, 267, 269, 270, 291, 308, 310, 311, 312, 314, 317, 318, 321,
               324, 375, 402, 405, 409, 415]
   | Nose \<Rightarrow> [1, 2, 4, 5, 6, 19, 94, 168, 195, 197, 236, 237, 238, 239, 240, 241, 242, 250,
              456, 457, 458, 459, 460, 461, 462]
   | LeftEye \<Rightarrow> [33, 7, 163, 144, 145, 153, 154, 155, 133, 173, 157, 158, 159, 160, 161, 246]
   | RightEye \<Rightarrow> [362, 382, 381, 380, 374, 373, 390, 249, 263, 466, 388, 387, 386, 385, 384,
                  398]
   | LeftCheek \<Rightarrow> [117, 118, 119, 120, 121, 126, 142, 203, 206, 216, 207, 187]
   | RightCheek \<Rightarrow> [346, 347, 348, 349, 350, 355, 371, 423, 426, 436, 427, 411]
   | Chin \<Rightarrow> [152, 175, 176, 148, 149, 150, 136, 169, 170, 171, 377, 378, 379, 365, 397,
              288, 361, 323])"

definition FINGERTIPS :: "nat list" where
  "FINGERTIPS = [4, 8, 12, 16, 20]"

text \<open>\<open>landmarks[idx]\<close> followed by a field read: out of range it throws.\<close>

definition landmarkAt :: "landmark list \<Rightarrow> nat \<Rightarrow> error + landmark" where
  "landmarkAt lms idx = (if idx < length lms then Inr (lms ! idx) else Inl TypeError)"

definition toPixel :: "real \<Rightarrow> real \<Rightarrow> landmark \<Rightarrow> point" where
  "toPixel videoWidth videoHeight lm =
     \<lparr>pt_x = lm_x lm * videoWidth, pt_y = lm_y lm * videoHeight, pt_z = lm_z lm * videoWidth\<rparr>"

text \<open>The list \<open>enabledZones\<close>, pushed in the fixed order of the seven \<open>if\<close>s.\<close>

definition enabledZones :: "zone_flags \<Rightarrow> zone list" where
  "enabledZones zs =
     (if mouth zs then [Mouth] else []) @
     (if nose zs then [Nose] else []) @
     (if leftEye zs then [LeftEye] else []) @
     (if rightEye zs then [RightEye] else []) @
     (if leftCheek zs then [LeftCheek] else []) @
     (if rightCheek zs then [RightCheek] else []) @
     (if chin zs then [Chin] else [])"

text \<open>\<open>indices.map(idx => ...)\<close>: the points of one region, or the first throw.\<close>

fun regionPoints :: "real \<Rightarrow> real \<Rightarrow> landmark list \<Rightarrow> nat list \<Rightarrow> error + point list" where
  "regionPoints w h face [] = Inr []"
| "regionPoints w h face (idx # rest) =
     (case landmarkAt face idx of
        Inl e \<Rightarrow> Inl e
      | Inr lm \<Rightarrow> (case regionPoints w h face rest of
                     Inl e \<Rightarrow> Inl e
                   | Inr ps \<Rightarrow> Inr (toPixel w h lm # ps)))"

text \<open>
  The object \<open>facePoints\<close>: its entries in insertion order, which is the order of
  \<open>enabledZones\<close> (the keys are distinct non-numeric strings).
\<close>

fun facePoints :: "real \<Rightarrow> real \<Rightarrow> landmark list \<Rightarrow> zone list \<Rightarrow> error + (zone \<times> point list) list" where
  "facePoints w h face [] = Inr []"
| "facePoints w h face (region # rest) =
     (case regionPoints w h face (FACE_REGIONS region) of
        Inl e \<Rightarrow> Inl e
      | Inr ps \<Rightarrow> (case facePoints w h face rest of
                     Inl e \<Rightarrow> Inl e
                   | Inr fps \<Rightarrow> Inr ((region, ps) # fps)))"

definition dist2d :: "point \<Rightarrow> point \<Rightarrow> real" where
  "dist2d p target =
     (let dx = pt_x p - pt_x target; dy = pt_y p - pt_y target
      in sqrt (dx * dx + dy * dy))"

fun minDistFrom :: "num \<Rightarrow> point \<Rightarrow> point list \<Rightarrow> num" where
  "minDistFrom minDist p [] = minDist"
| "minDistFrom minDist p (target # targets) =
     (let dist = dist2d p target
      in minDistFrom (if num_lt (Fin dist) minDist then Fin dist else minDist) p targets)"

definition getMinDistance :: "point \<Rightarrow> point list \<Rightarrow> num" where
  "getMinDistance p targets = minDistFrom PosInf p targets"

text \<open>\<open>baseThreshold / (state.settings.sensitivity / 100)\<close>\<close>

definition threshold :: "real \<Rightarrow> num" where
  "threshold sens =
     (let baseThreshold = 40; sensitivityMultiplier = sens / 100
      in js_div baseThreshold sensitivityMultiplier)"

text \<open>\<open>points.reduce((sum, p) => sum + p.z, 0) / points.length\<close>\<close>

definition avgFaceZ :: "point list \<Rightarrow> real" where
  "avgFaceZ points = foldl (\<lambda>sum p. sum + pt_z p) 0 points / real (length points)"

text \<open>The two tests of the innermost loop body.\<close>

definition proximityTest :: "real \<Rightarrow> point \<Rightarrow> point list \<Rightarrow> bool" where
  "proximityTest sens tipPoint points = num_lt (getMinDistance tipPoint points) (threshold sens)"

definition zDiff :: "point \<Rightarrow> point list \<Rightarrow> real" where
  "zDiff tipPoint points = pt_z tipPoint - avgFaceZ points"

text \<open>The innermost loop, over the entries of \<open>facePoints\<close>: the first region accepted.\<close>

fun checkRegions :: "real \<Rightarrow> point \<Rightarrow> (zone \<times> point list) list \<Rightarrow> zone option" where
  "checkRegions sens tipPoint [] = None"
| "checkRegions sens tipPoint ((region, points) # rest) =
     (if proximityTest sens tipPoint points then
        (if zDiff tipPoint points < 50 then Some region
         else checkRegions sens tipPoint rest)
      else checkRegions sens tipPoint rest)"

text \<open>The middle loop, over \<open>FINGERTIPS\<close>.\<close>

fun checkFingertips ::
  "real \<Rightarrow> real \<Rightarrow> real \<Rightarrow> (zone \<times> point list) list \<Rightarrow> landmark list \<Rightarrow> nat list \<Rightarrow> error + zone option" where
  "checkFingertips w h sens fps handLandmarks [] = Inr None"
| "checkFingertips w h sens fps handLandmarks (tipIdx # rest) =
     (case landmarkAt handLandmarks tipIdx of
        Inl e \<Rightarrow> Inl e
      | Inr tip \<Rightarrow> (case checkRegions sens (toPixel w h tip) fps of
                      Some region \<Rightarrow> Inr (Some region)
                    | None \<Rightarrow> checkFingertips w h sens fps handLandmarks rest))"

text \<open>The outer loop, over the hands.\<close>

fun checkHands ::
  "real \<Rightarrow> real \<Rightarrow> real \<Rightarrow> (zone \<times> point list) list \<Rightarrow> landmark list list \<Rightarrow> error + zone option" where
  "checkHands w h sens fps [] = Inr None"
| "checkHands w h sens fps (handLandmarks # rest) =
     (case checkFingertips w h sens fps handLandmarks FINGERTIPS of
        Inl e \<Rightarrow> Inl e
      | Inr (Some region) \<Rightarrow> Inr (Some region)
      | Inr None \<Rightarrow> checkHands w h sens fps rest)"

text \<open>
  \<open>checkFaceTouch(faceLandmarks, handLandmarksList)\<close>: the returned boolean and the state
  after the call. \<open>None\<close> is the \<open>null\<close> face of a frame without a face.
\<close>

definition checkFaceTouch ::
  "landmark list option \<Rightarrow> landmark list list \<Rightarrow> state \<Rightarrow> error + (bool \<times> state)" where
  "checkFaceTouch faceLandmarks handLandmarksList st =
     (case faceLandmarks of
        None \<Rightarrow> Inr (False, st\<lparr>lastTouchedZone := None\<rparr>)
      | Some face \<Rightarrow>
          if handLandmarksList = [] then Inr (False, st\<lparr>lastTouchedZone := None\<rparr>)
          else
            (let videoWidth = canvas_width st;
                 videoHeight = canvas_height st;
                 ez = enabledZones (zones (settings st))
             in if ez = [] then Inr (False, st\<lparr>lastTouchedZone := None\<rparr>)
                else
                  (case facePoints videoWidth videoHeight face ez of
                     Inl e \<Rightarrow> Inl e
                   | Inr fps \<Rightarrow>
                       (case checkHands videoWidth videoHeight (sensitivity (settings st)) fps
                               handLandmarksList of
                          Inl e \<Rightarrow> Inl e
                        | Inr (Some region) \<Rightarrow> Inr (True, st\<lparr>lastTouchedZone := Some region\<rparr>)
                        | Inr None \<Rightarrow> Inr (False, st\<lparr>lastTouchedZone := None\<rparr>)))))"

section \<open>Posture detection\<close>

text \<open>The entries of \<open>POSE_LANDMARKS\<close> that \<open>checkPosture\<close> reads.\<close>

definition NOSE :: nat where "NOSE = 0"
definition LEFT_EAR :: nat where "LEFT_EAR = 7"
definition RIGHT_EAR :: nat where "RIGHT_EAR = 8"
definition LEFT_SHOULDER :: nat where "LEFT_SHOULDER = 11"
definition RIGHT_SHOULDER :: nat where "RIGHT_SHOULDER = 12"
definition LEFT_HIP :: nat where "LEFT_HIP = 23"
definition RIGHT_HIP :: nat where "RIGHT_HIP = 24"

text \<open>
  The host's \<open>Math.atan2(y, x)\<close> on reals: the angle of the point \<open>(x, y)\<close> in
  \<open>(-\<pi>, \<pi>]\<close>, and \<open>0\<close> at the origin.
\<close>

definition atan2 :: "real \<Rightarrow> real \<Rightarrow> real" where
  "atan2 y x =
     (if 0 < x then arctan (y / x)
      else if x < 0 then (if 0 \<le> y then arctan (y / x) + pi else arctan (y / x) - pi)
      else if 0 < y then pi / 2
      else if y < 0 then - (pi / 2)
      else 0)"

definition calculateAngle :: "landmark \<Rightarrow> landmark \<Rightarrow> landmark \<Rightarrow> real" where
  "calculateAngle pointA pointB pointC =
     (let radians = atan2 (lm_y pointC - lm_y pointB) (lm_x pointC - lm_x pointB) -
                    atan2 (lm_y pointA - lm_y pointB) (lm_x pointA - lm_x pointB);
          angle = \<bar>radians * (180 / pi)\<bar>
      in if angle > 180 then 360 - angle else angle)"

definition andThen :: "error + 'a \<Rightarrow> ('a \<Rightarrow> error + 'b) \<Rightarrow> error + 'b" where
  "andThen m f = (case m of Inl e \<Rightarrow> Inl e | Inr v \<Rightarrow> f v)"

text \<open>\<open>issues.join(', ')\<close>\<close>

fun join :: "string list \<Rightarrow> string" where
  "join [] = ''''"
| "join [s] = s"
| "join (s # t # rest) = s @ '', '' @ join (t # rest)"

text \<open>
  The four numbered blocks of \<open>checkPosture\<close>, each taking the array \<open>issues\<close> as it
  stands and giving it back, with its label pushed when the check fires (a push is an
  append). \<open>sens\<close> is the local \<open>sensitivity\<close>, that is
  \<open>state.settings.posture.sensitivity / 100\<close>; a threshold is the setting divided by it.
  In the point above the shoulder only \<open>x\<close> and \<open>y\<close> exist, and only they are read.
  The local thresholds carry a prime, their names being those of the settings they are
  computed from.
\<close>

definition headForwardCheck :: "posture_settings \<Rightarrow> real \<Rightarrow> landmark \<Rightarrow> landmark \<Rightarrow> string list \<Rightarrow> string list" where
  "headForwardCheck ps sens ear shoulder issues =
     (let headForwardThreshold' = js_div (headForwardThreshold ps) sens
      in if lm_visibility ear > 0.5 \<and> lm_visibility shoulder > 0.5 then
           (let headForwardAngle = calculateAngle
                  \<lparr>lm_x = lm_x shoulder, lm_y = lm_y shoulder - 0.1, lm_z = 0, lm_visibility = 0\<rparr>
                  shoulder ear;
                headForwardDeviation = \<bar>90 - headForwardAngle\<bar>
            in if num_lt headForwardThreshold' (Fin headForwardDeviation)
               then issues @ [''Head forward''] else issues)
         else issues)"

definition shoulderSlouchCheck :: "posture_settings \<Rightarrow> real \<Rightarrow> landmark \<Rightarrow> landmark \<Rightarrow> string list \<Rightarrow> string list" where
  "shoulderSlouchCheck ps sens leftShoulder rightShoulder issues =
     (let shoulderSlouchThreshold' = js_div (shoulderSlouchThreshold ps) sens
      in if lm_visibility leftShoulder > 0.5 \<and> lm_visibility rightShoulder > 0.5 then
           (let shoulderAngle =
                  \<bar>atan2 (lm_y rightShoulder - lm_y leftShoulder)
                         (lm_x rightShoulder - lm_x leftShoulder) * (180 / pi)\<bar>
            in if num_lt shoulderSlouchThreshold' (Fin shoulderAngle)
               then issues @ [''Uneven shoulders''] else issues)
         else issues)"

definition spineCheck :: "posture_settings \<Rightarrow> real \<Rightarrow> landmark \<Rightarrow> landmark \<Rightarrow> landmark \<Rightarrow> string list \<Rightarrow> string list" where
  "spineCheck ps sens ear shoulder hip issues =
     (let spineAngleThreshold' = js_div (spineAngleThreshold ps) sens
      in if lm_visibility ear > 0.5 \<and> lm_visibility shoulder > 0.5 \<and> lm_visibility hip > 0.5 then
           (let spineAngle = calculateAngle ear shoulder hip;
                spineDeviation = \<bar>180 - spineAngle\<bar>
            in if num_lt spineAngleThreshold' (Fin spineDeviation)
               then issues @ [''Spine curved''] else issues)
         else issues)"

definition hunchCheck :: "real \<Rightarrow> landmark \<Rightarrow> landmark \<Rightarrow> string list \<Rightarrow> string list" where
  "hunchCheck sens shoulder hip issues =
     (if lm_visibility shoulder > 0.5 \<and> lm_visibility hip > 0.5 then
        (let hunchThreshold = js_div 0.05 sens
         in if num_lt hunchThreshold (Fin (lm_x shoulder - lm_x hip))
            then issues @ [''Shoulders hunched''] else issues)
      else issues)"

text \<open>
  The array \<open>issues\<close> that \<open>checkPosture\<close> has built when it is past the fourth block.
  The six landmarks whose \<open>visibility\<close> is read must exist, or the read throws; once
  they exist, the tests \<open>ear && shoulder\<close> and the like, of objects, always hold. The
  nose is read and never used.
\<close>

definition postureIssues :: "posture_settings \<Rightarrow> landmark list \<Rightarrow> error + string list" where
  "postureIssues ps poseLandmarks =
     andThen (landmarkAt poseLandmarks LEFT_EAR) (\<lambda>leftEar.
     andThen (landmarkAt poseLandmarks RIGHT_EAR) (\<lambda>rightEar.
     andThen (landmarkAt poseLandmarks LEFT_SHOULDER) (\<lambda>leftShoulder.
     andThen (landmarkAt poseLandmarks RIGHT_SHOULDER) (\<lambda>rightShoulder.
     andThen (landmarkAt poseLandmarks LEFT_HIP) (\<lambda>leftHip.
     andThen (landmarkAt poseLandmarks RIGHT_HIP) (\<lambda>rightHip.
       (let issues0 = [];
            sens = posture_sensitivity ps / 100;
            ear = (if lm_visibility leftEar > lm_visibility rightEar then leftEar else rightEar);
            shoulder = (if lm_visibility leftShoulder > lm_visibility rightShoulder
                        then leftShoulder else rightShoulder);
            issues1 = headForwardCheck ps sens ear shoulder issues0;
            issues2 = shoulderSlouchCheck ps sens leftShoulder rightShoulder issues1;
            hip = (if lm_visibility leftHip > lm_visibility rightHip then leftHip else rightHip);
            issues3 = spineCheck ps sens ear shoulder hip issues2;
            issues4 = hunchCheck sens shoulder hip issues3
        in Inr issues4)))))))"

text \<open>
  \<open>checkPosture(poseLandmarks)\<close>: the returned boolean and the state after the call.
  \<open>None\<close> is the \<open>null\<close> of a frame without a pose.
\<close>

definition checkPosture :: "landmark list option \<Rightarrow> state \<Rightarrow> error + (bool \<times> state)" where
  "checkPosture poseLandmarks st =
     (case poseLandmarks of
        None \<Rightarrow> Inr (False, st\<lparr>currentPostureIssue := None\<rparr>)
      | Some pose \<Rightarrow>
          if \<not> enabled (posture (settings st)) then Inr (False, st\<lparr>currentPostureIssue := None\<rparr>)
          else
            andThen (postureIssues (posture (settings st)) pose) (\<lambda>issues.
              if length issues > 0
              then Inr (True, st\<lparr>currentPostureIssue := Some (join issues)\<rparr>)
              else Inr (False, st\<lparr>currentPostureIssue := None\<rparr>)))"

section \<open>Alert handling\<close>

text \<open>
  The requests an alert makes of its sinks: \<open>playBeep(frequency, duration)\<close> under
  \<open>soundEnabled\<close>, the flash under \<open>visualAlertEnabled\<close>, \<open>sendNotification\<close> under
  \<open>notifyEnabled\<close>. The text of the notification and of the console line is left out.
\<close>

definition sinkRequests :: "settings \<Rightarrow> nat \<Rightarrow> nat \<Rightarrow> effect list" where
  "sinkRequests cfg frequency duration =
     (if soundEnabled cfg then [Beep frequency duration] else []) @
     (if visualAlertEnabled cfg then [Flash] else []) @
     (if notifyEnabled cfg then [Notification] else [])"

text \<open>
  \<open>now\<close> is what \<open>Date.now()\<close> returns during the call. The timeout that takes the
  flash off the page again acts on the page only and is left out, here and in the other
  alert functions.
\<close>

definition triggerAlert :: "real \<Rightarrow> state \<Rightarrow> state" where
  "triggerAlert now st =
     st\<lparr>touchCount := touchCount st + 1,
        lastTouchTime := Some now,
        emitted := emitted st @ Alert TouchOnset # sinkRequests (settings st) 440 150\<rparr>"

definition triggerContinuousAlert :: "state \<Rightarrow> state" where
  "triggerContinuousAlert st =
     st\<lparr>emitted := emitted st @ Alert TouchContinuous # sinkRequests (settings st) 440 150\<rparr>"

definition triggerPostureAlert :: "real \<Rightarrow> state \<Rightarrow> state" where
  "triggerPostureAlert now st =
     st\<lparr>postureAlertCount := postureAlertCount st + 1,
        lastPostureAlertTime := Some now,
        emitted := emitted st @ Alert PostureOnset # sinkRequests (settings st) 330 200\<rparr>"

definition triggerPostureContinuousAlert :: "state \<Rightarrow> state" where
  "triggerPostureContinuousAlert st =
     st\<lparr>emitted := emitted st @ Alert PostureContinuous # sinkRequests (settings st) 330 200\<rparr>"

text \<open>The host's \<open>setInterval\<close> and \<open>clearInterval\<close>.\<close>

definition setInterval :: "callback \<Rightarrow> real \<Rightarrow> state \<Rightarrow> nat \<times> state" where
  "setInterval cb period st =
     (nextTimerId st,
      st\<lparr>intervals := intervals st @ [(nextTimerId st, cb, period)],
         nextTimerId := Suc (nextTimerId st)\<rparr>)"

definition clearInterval :: "nat \<Rightarrow> state \<Rightarrow> state" where
  "clearInterval handle st = st\<lparr>intervals := filter (\<lambda>entry. fst entry \<noteq> handle) (intervals st)\<rparr>"

definition stopContinuousBeep :: "state \<Rightarrow> state" where
  "stopContinuousBeep st =
     (case continuousBeepTimer st of
        Some handle \<Rightarrow> (clearInterval handle st)\<lparr>continuousBeepTimer := None\<rparr>
      | None \<Rightarrow> st)"

definition startContinuousBeep :: "state \<Rightarrow> state" where
  "startContinuousBeep st =
     (let st1 = stopContinuousBeep st;
          (handle, st2) = setInterval TouchRepeat (alertCooldownMs (settings st1)) st1
      in st2\<lparr>continuousBeepTimer := Some handle\<rparr>)"

text \<open>The arrow function that \<open>startContinuousBeep\<close> hands to \<open>setInterval\<close>.\<close>

definition continuousBeepTick :: "state \<Rightarrow> state" where
  "continuousBeepTick st =
     (if isTouching st then triggerContinuousAlert st else stopContinuousBeep st)"

text \<open>
  \<open>handleTouchState(touchDetected, faceVisible)\<close>. \<open>updateDetectionStatus\<close> writes to the
  page only.
\<close>

definition handleTouchState :: "bool \<Rightarrow> bool \<Rightarrow> real \<Rightarrow> state \<Rightarrow> state" where
  "handleTouchState touchDetected faceVisible now st =
     (let st1 = st\<lparr>wasTouching := isTouching st\<rparr>;
          st2 = st1\<lparr>isTouching := touchDetected\<rparr>
      in if touchDetected \<and> \<not> wasTouching st2 then startContinuousBeep (triggerAlert now st2)
         else if \<not> touchDetected \<and> wasTouching st2 then stopContinuousBeep st2
         else st2)"

definition stopPostureContinuousAlert :: "state \<Rightarrow> state" where
  "stopPostureContinuousAlert st =
     (case postureBeepTimer st of
        Some handle \<Rightarrow> (clearInterval handle st)\<lparr>postureBeepTimer := None\<rparr>
      | None \<Rightarrow> st)"

definition startPostureContinuousAlert :: "state \<Rightarrow> state" where
  "startPostureContinuousAlert st =
     (let st1 = stopPostureContinuousAlert st;
          (handle, st2) = setInterval PostureRepeat (posture_alertCooldownMs (posture (settings st1))) st1
      in st2\<lparr>postureBeepTimer := Some handle\<rparr>)"

definition postureBeepTick :: "state \<Rightarrow> state" where
  "postureBeepTick st =
     (if isBadPosture st then triggerPostureContinuousAlert st else stopPostureContinuousAlert st)"

definition handlePostureState :: "bool \<Rightarrow> real \<Rightarrow> state \<Rightarrow> state" where
  "handlePostureState badPostureDetected now st =
     (let st1 = st\<lparr>wasBadPosture := isBadPosture st\<rparr>;
          st2 = st1\<lparr>isBadPosture := badPostureDetected\<rparr>
      in if badPostureDetected \<and> \<not> wasBadPosture st2
         then startPostureContinuousAlert (triggerPostureAlert now st2)
         else if \<not> badPostureDetected \<and> wasBadPosture st2 then stopPostureContinuousAlert st2
         else st2)"

text \<open>
  \<open>stopMonitoring()\<close>, without the cameras, the canvases and the page. A frame handle is
  truthy, so the frame request is cancelled whenever there is one.
\<close>

definition stopMonitoring :: "state \<Rightarrow> state" where
  "stopMonitoring st =
     (let st1 = st\<lparr>isRunning := False\<rparr>;
          st2 = st1\<lparr>animationId := None\<rparr>;
          st3 = stopContinuousBeep st2;
          st4 = stopPostureContinuousAlert st3
      in st4\<lparr>isBadPosture := False, wasBadPosture := False\<rparr>)"

text \<open>The \<open>change\<close> listener of \<open>postureToggle\<close>; \<open>checked\<close> is \<open>e.target.checked\<close>.\<close>

definition postureToggleChange :: "bool \<Rightarrow> state \<Rightarrow> state" where
  "postureToggleChange checked st =
     (let st1 = st\<lparr>settings := (settings st)\<lparr>posture := (posture (settings st))\<lparr>enabled := checked\<rparr>\<rparr>\<rparr>
      in if checked then st1
         else (stopPostureContinuousAlert st1)\<lparr>isBadPosture := False, wasBadPosture := False\<rparr>)"

subsection \<open>The alert handling of \<open>src/detect.js\<close>\<close>

text \<open>
  \<open>src/detect.js\<close> has the touch check of the previous section word for word, no posture
  detection and no repeat timers. Its \<open>triggerAlert\<close> sets the flag \<open>alertCooldown\<close> and
  hands the host a timeout of \<open>state.settings.alertCooldownMs\<close>, read at that moment,
  whose callback (\<open>cooldownTimeout\<close>) clears the flag; the handle that \<open>setTimeout\<close>
  returns is dropped. Its \<open>handleTouchState\<close> reads the flag.
\<close>

definition setTimeout :: "real \<Rightarrow> state \<Rightarrow> nat \<times> state" where
  "setTimeout delay st =
     (nextTimerId st,
      st\<lparr>timeouts := timeouts st @ [(nextTimerId st, delay)],
         nextTimerId := Suc (nextTimerId st)\<rparr>)"

definition cooldownTimeout :: "state \<Rightarrow> state" where
  "cooldownTimeout st = st\<lparr>alertCooldown := False\<rparr>"

definition triggerAlert_detect_js :: "real \<Rightarrow> state \<Rightarrow> state" where
  "triggerAlert_detect_js now st =
     (let st1 = st\<lparr>touchCount := touchCount st + 1,
                    lastTouchTime := Some now,
                    emitted := emitted st @ Alert TouchOnset # sinkRequests (settings st) 440 150\<rparr>;
          st2 = st1\<lparr>alertCooldown := True\<rparr>;
          (handle, st3) = setTimeout (alertCooldownMs (settings st2)) st2
      in st3)"

definition handleTouchState_detect_js :: "bool \<Rightarrow> bool \<Rightarrow> real \<Rightarrow> state \<Rightarrow> state" where
  "handleTouchState_detect_js touchDetected faceVisible now st =
     (let st1 = st\<lparr>wasTouching := isTouching st\<rparr>;
          st2 = st1\<lparr>isTouching := touchDetected\<rparr>
      in if touchDetected \<and> \<not> wasTouching st2 \<and> \<not> alertCooldown st2
         then triggerAlert_detect_js now st2
         else st2)"

section \<open>The host's scheduler\<close>

text \<open>
  Callbacks run one at a time. The host runs the frame loop, which hands the frame's
  detection result to \<open>handleTouchState\<close> or \<open>handlePostureState\<close>, and fires the
  intervals; an interval that has been cleared never fires. A timeout runs once, when
  its delay has passed, and is then gone; \<open>fireTimeout\<close> is the host running one of
  \<open>src/detect.js\<close>.
\<close>

definition fireTimeout :: "nat \<Rightarrow> state \<Rightarrow> state" where
  "fireTimeout handle st =
     (case map_of (timeouts st) handle of
        None \<Rightarrow> st
      | Some delay \<Rightarrow>
          cooldownTimeout (st\<lparr>timeouts := filter (\<lambda>entry. fst entry \<noteq> handle) (timeouts st)\<rparr>))"

datatype event = TouchFrame bool bool real | PostureFrame bool real | Fire nat

definition fire :: "nat \<Rightarrow> state \<Rightarrow> state" where
  "fire handle st =
     (case map_of (intervals st) handle of
        None \<Rightarrow> st
      | Some (TouchRepeat, period) \<Rightarrow> continuousBeepTick st
      | Some (PostureRepeat, period) \<Rightarrow> postureBeepTick st)"

fun step :: "event \<Rightarrow> state \<Rightarrow> state" where
  "step (TouchFrame touchDetected faceVisible now) st = handleTouchState touchDetected faceVisible now st"
| "step (PostureFrame badPostureDetected now) st = handlePostureState badPostureDetected now st"
| "step (Fire handle) st = fire handle st"

definition run :: "event list \<Rightarrow> state \<Rightarrow> state" where
  "run evs st = fold step evs st"

section \<open>The specification's vocabulary\<close>

text \<open>The flag of a zone in \<open>state.settings.zones\<close>.\<close>

definition zoneFlag :: "zone_flags \<Rightarrow> zone \<Rightarrow> bool" where
  "zoneFlag zs r = (case r of
     Mouth \<Rightarrow> mouth zs | Nose \<Rightarrow> nose zs | LeftEye \<Rightarrow> leftEye zs | RightEye \<Rightarrow> rightEye zs
   | LeftCheek \<Rightarrow> leftCheek zs | RightCheek \<Rightarrow> rightCheek zs | Chin \<Rightarrow> chin zs)"

text \<open>
  The face has an entry for every index of the region tables and every hand has its 21
  landmarks, as the landmarkers deliver them (478 and 21 points).
\<close>

definition wellFormed :: "landmark list \<Rightarrow> landmark list list \<Rightarrow> bool" where
  "wellFormed face hands \<longleftrightarrow> 467 \<le> length face \<and> (\<forall>hand \<in> set hands. 21 \<le> length hand)"

text \<open>The pixel-space point list of a zone.\<close>

definition zonePoints :: "real \<Rightarrow> real \<Rightarrow> landmark list \<Rightarrow> zone \<Rightarrow> point list" where
  "zonePoints w h face r = map (\<lambda>idx. toPixel w h (face ! idx)) (FACE_REGIONS r)"

text \<open>The arithmetic mean of the z values of a point list.\<close>

definition meanZ :: "point list \<Rightarrow> real" where
  "meanZ points = sum_list (map pt_z points) / real (length points)"

text \<open>
  The fingertip-zone pairs in enumeration order: hands in list order, then the fingertip
  indices, then the enabled zones.
\<close>

definition candidates :: "landmark list list \<Rightarrow> zone list \<Rightarrow> (landmark list \<times> nat \<times> zone) list" where
  "candidates hands ez = [(hand, tipIdx, r). hand \<leftarrow> hands, tipIdx \<leftarrow> FINGERTIPS, r \<leftarrow> ez]"

definition zoneOf :: "landmark list \<times> nat \<times> zone \<Rightarrow> zone" where
  "zoneOf c = snd (snd c)"

definition pairDistance :: "real \<Rightarrow> real \<Rightarrow> landmark list \<Rightarrow> landmark list \<times> nat \<times> zone \<Rightarrow> num" where
  "pairDistance w h face c =
     getMinDistance (toPixel w h (fst c ! fst (snd c))) (zonePoints w h face (zoneOf c))"

text \<open>A pair passes the proximity test and the depth test.\<close>

definition pairAccepted :: "real \<Rightarrow> real \<Rightarrow> real \<Rightarrow> landmark list \<Rightarrow> landmark list \<times> nat \<times> zone \<Rightarrow> bool" where
  "pairAccepted w h sens face c \<longleftrightarrow>
     proximityTest sens (toPixel w h (fst c ! fst (snd c))) (zonePoints w h face (zoneOf c)) \<and>
     zDiff (toPixel w h (fst c ! fst (snd c))) (zonePoints w h face (zoneOf c)) < 50"

text \<open>What a call reports for the zone it found, or for none.\<close>

definition report :: "state \<Rightarrow> zone option \<Rightarrow> bool \<times> state" where
  "report st found = (found \<noteq> None, st\<lparr>lastTouchedZone := found\<rparr>)"

text \<open>
  The four posture checks as the specification words them, on a pose with all its
  landmarks: the ear, shoulder and hip are the more visible of each pair, every landmark
  a check uses must have a visibility above 0.5, and every threshold is divided by
  \<open>sensitivity / 100\<close>.
\<close>

definition moreVisible :: "landmark \<Rightarrow> landmark \<Rightarrow> landmark" where
  "moreVisible l r = (if lm_visibility l > lm_visibility r then l else r)"

definition earOf :: "landmark list \<Rightarrow> landmark" where
  "earOf pose = moreVisible (pose ! LEFT_EAR) (pose ! RIGHT_EAR)"

definition shoulderOf :: "landmark list \<Rightarrow> landmark" where
  "shoulderOf pose = moreVisible (pose ! LEFT_SHOULDER) (pose ! RIGHT_SHOULDER)"

definition hipOf :: "landmark list \<Rightarrow> landmark" where
  "hipOf pose = moreVisible (pose ! LEFT_HIP) (pose ! RIGHT_HIP)"

definition visible :: "landmark \<Rightarrow> bool" where
  "visible l \<longleftrightarrow> lm_visibility l > 0.5"

definition aboveOf :: "landmark \<Rightarrow> landmark" where
  "aboveOf l = \<lparr>lm_x = lm_x l, lm_y = lm_y l - 0.1, lm_z = 0, lm_visibility = 0\<rparr>"

definition headForwardFires :: "posture_settings \<Rightarrow> landmark list \<Rightarrow> bool" where
  "headForwardFires ps pose \<longleftrightarrow>
     visible (earOf pose) \<and> visible (shoulderOf pose) \<and>
     \<bar>90 - calculateAngle (aboveOf (shoulderOf pose)) (shoulderOf pose) (earOf pose)\<bar>
       > headForwardThreshold ps / (posture_sensitivity ps / 100)"

definition shoulderTiltFires :: "posture_settings \<Rightarrow> landmark list \<Rightarrow> bool" where
  "shoulderTiltFires ps pose \<longleftrightarrow>
     visible (pose ! LEFT_SHOULDER) \<and> visible (pose ! RIGHT_SHOULDER) \<and>
     \<bar>atan2 (lm_y (pose ! RIGHT_SHOULDER) - lm_y (pose ! LEFT_SHOULDER))
            (lm_x (pose ! RIGHT_SHOULDER) - lm_x (pose ! LEFT_SHOULDER)) * (180 / pi)\<bar>
       > shoulderSlouchThreshold ps / (posture_sensitivity ps / 100)"

definition spineCurveFires :: "posture_settings \<Rightarrow> landmark list \<Rightarrow> bool" where
  "spineCurveFires ps pose \<longleftrightarrow>
     visible (earOf pose) \<and> visible (shoulderOf pose) \<and> visible (hipOf pose) \<and>
     \<bar>180 - calculateAngle (earOf pose) (shoulderOf pose) (hipOf pose)\<bar>
       > spineAngleThreshold ps / (posture_sensitivity ps / 100)"

definition hunchFires :: "posture_settings \<Rightarrow> landmark list \<Rightarrow> bool" where
  "hunchFires ps pose \<longleftrightarrow>
     visible (shoulderOf pose) \<and> visible (hipOf pose) \<and>
     lm_x (shoulderOf pose) - lm_x (hipOf pose) > 0.05 / (posture_sensitivity ps / 100)"

text \<open>Which check a label of the issue list belongs to.\<close>

definition fires :: "posture_settings \<Rightarrow> landmark list \<Rightarrow> string \<Rightarrow> bool" where
  "fires ps pose label \<longleftrightarrow>
     (label = ''Head forward'' \<and> headForwardFires ps pose) \<or>
     (label = ''Uneven shoulders'' \<and> shoulderTiltFires ps pose) \<or>
     (label = ''Spine curved'' \<and> spineCurveFires ps pose) \<or>
     (label = ''Shoulders hunched'' \<and> hunchFires ps pose)"

definition issueLabels :: "string list" where
  "issueLabels = [''Head forward'', ''Uneven shoulders'', ''Spine curved'', ''Shoulders hunched'']"

text \<open>
  A value exceeds a threshold of the settings divided by \<open>sensitivity / 100\<close>, as the
  code compares them.
\<close>

definition exceeds :: "real \<Rightarrow> real \<Rightarrow> real \<Rightarrow> bool" where
  "exceeds v limit sens \<longleftrightarrow> num_lt (js_div limit (sens / 100)) (Fin v)"

text \<open>The alerts of one kind among the effects emitted.\<close>

definition alerts :: "alert \<Rightarrow> state \<Rightarrow> nat" where
  "alerts a st = count_list (emitted st) (Alert a)"

text \<open>An alert state machine is idle: not active, and no repeat timer.\<close>

definition touchIdle :: "state \<Rightarrow> bool" where
  "touchIdle st \<longleftrightarrow> \<not> isTouching st \<and> continuousBeepTimer st = None"

definition postureIdle :: "state \<Rightarrow> bool" where
  "postureIdle st \<longleftrightarrow> \<not> isBadPosture st \<and> postureBeepTimer st = None"

text \<open>The handles of the intervals that can still fire.\<close>

definition liveHandles :: "state \<Rightarrow> nat set" where
  "liveHandles st = fst ` set (intervals st)"

text \<open>The handles of the timeouts that have not yet run.\<close>

definition pendingTimeouts :: "state \<Rightarrow> nat set" where
  "pendingTimeouts st = fst ` set (timeouts st)"

text \<open>Every handle in use is below the next one the host gives out.\<close>

definition handlesFresh :: "state \<Rightarrow> bool" where
  "handlesFresh st \<longleftrightarrow> list_all (\<lambda>entry. fst entry < nextTimerId st) (intervals st)"



text \<open>
  The rising edges of a detection signal in a sequence of events, given the boolean of
  the frame before: the frames of the behaviour that carry true after a frame that
  carried false. Ticks and the other behaviour's frames do not count.
\<close>

fun touchEdges :: "bool \<Rightarrow> event list \<Rightarrow> nat" where
  "touchEdges before [] = 0"
| "touchEdges before (TouchFrame touchDetected faceVisible now # evs) =
     (if touchDetected \<and> \<not> before then 1 else 0) + touchEdges touchDetected evs"
| "touchEdges before (PostureFrame badPostureDetected now # evs) = touchEdges before evs"
| "touchEdges before (Fire handle # evs) = touchEdges before evs"

fun postureEdges :: "bool \<Rightarrow> event list \<Rightarrow> nat" where
  "postureEdges before [] = 0"
| "postureEdges before (PostureFrame badPostureDetected now # evs) =
     (if badPostureDetected \<and> \<not> before then 1 else 0) + postureEdges badPostureDetected evs"
| "postureEdges before (TouchFrame touchDetected faceVisible now # evs) = postureEdges before evs"
| "postureEdges before (Fire handle # evs) = postureEdges before evs"




section \<open>Example inputs\<close>

text \<open>The \<open>settings\<close> and the \<open>state\<close> the module starts with, on a canvas of a given size.\<close>

definition defaultSettings :: settings where
  "defaultSettings =
     \<lparr>sensitivity = 100, alertCooldownMs = 2000, soundEnabled = True, notifyEnabled = False,
      visualAlertEnabled = True,
      zones = \<lparr>mouth = True, nose = True, leftEye = True, rightEye = True,
               leftCheek = False, rightCheek = False, chin = False\<rparr>,
      posture = \<lparr>enabled = False, posture_sensitivity = 100, headForwardThreshold = 15,
                 shoulderSlouchThreshold = 10, spineAngleThreshold = 15,
                 posture_alertCooldownMs = 3000\<rparr>\<rparr>"

definition initialState :: "real \<Rightarrow> real \<Rightarrow> state" where
  "initialState w h =
     \<lparr>isRunning = False, animationId = None, canvas_width = w, canvas_height = h,
      touchCount = 0, lastTouchTime = None, postureAlertCount = 0,
      lastPostureAlertTime = None, alertCooldown = False, isTouching = False,
      wasTouching = False, continuousBeepTimer = None, isBadPosture = False,
      wasBadPosture = False, postureBeepTimer = None, currentPostureIssue = None,
      settings = defaultSettings, lastTouchedZone = None, intervals = [], timeouts = [],
      nextTimerId = 0, emitted = []\<rparr>"

definition lmk :: "real \<Rightarrow> real \<Rightarrow> real \<Rightarrow> landmark" where
  "lmk a b c = \<lparr>lm_x = a, lm_y = b, lm_z = c, lm_visibility = 0\<rparr>"

text \<open>A face with all its 478 landmarks at the origin, and a hand with all 21 at one point.\<close>

definition flatFace :: "landmark list" where
  "flatFace = replicate 478 (lmk 0 0 0)"

definition flatHand :: "real \<Rightarrow> real \<Rightarrow> real \<Rightarrow> landmark list" where
  "flatHand a b c = replicate 21 (lmk a b c)"

text \<open>
  Hands for the flat face on a canvas of 100 by 100: every fingertip at 2-D distance 39
  of every zone with \<open>zDiff = 10\<close>; at distance 10 with \<open>zDiff = 60\<close>; and at distance 30,
  on a face whose landmark 1, of the nose, lies under the fingertips.
\<close>

definition nearHand :: "landmark list" where
  "nearHand = flatHand (39/100) 0 (1/10)"

definition deepHand :: "landmark list" where
  "deepHand = flatHand (1/10) 0 (6/10)"

definition noseHand :: "landmark list" where
  "noseHand = flatHand (3/10) 0 0"

definition noseFace :: "landmark list" where
  "noseFace = flatFace[1 := lmk (3/10) 0 0]"

text \<open>The starting state on that canvas, and the same with every zone switched off.\<close>

definition state100 :: state where
  "state100 = initialState 100 100"

definition allZonesOff :: state where
  "allZonesOff = state100\<lparr>settings := defaultSettings\<lparr>zones :=
      \<lparr>mouth = False, nose = False, leftEye = False, rightEye = False, leftCheek = False,
       rightCheek = False, chin = False\<rparr>\<rparr>\<rparr>"

text \<open>
  A pose of 33 landmarks seen from the side, in which all four checks have something to
  find: the ear up and forward of the shoulder, the right shoulder below the left one,
  the hip level with the shoulder and behind it. The ear's visibility is a parameter;
  the right ear and the right hip are hidden.
\<close>

definition slouchPose :: "real \<Rightarrow> landmark list" where
  "slouchPose earVisibility =
     (replicate 33 (lmk 0 0 0))
       [7 := \<lparr>lm_x = 6/10, lm_y = 4/10, lm_z = 0, lm_visibility = earVisibility\<rparr>,
        11 := \<lparr>lm_x = 5/10, lm_y = 5/10, lm_z = 0, lm_visibility = 9/10\<rparr>,
        12 := \<lparr>lm_x = 6/10, lm_y = 6/10, lm_z = 0, lm_visibility = 8/10\<rparr>,
        23 := \<lparr>lm_x = 4/10, lm_y = 5/10, lm_z = 0, lm_visibility = 9/10\<rparr>]"

definition clearPose :: "landmark list" where
  "clearPose = slouchPose (9/10)"

definition dimEarPose :: "landmark list" where
  "dimEarPose = slouchPose (4/10)"

text \<open>The starting state with posture detection switched on.\<close>

definition postureOn :: state where
  "postureOn = state100\<lparr>settings := defaultSettings\<lparr>posture :=
     (posture defaultSettings)\<lparr>enabled := True\<rparr>\<rparr>\<rparr>"

text \<open>
  The monitor with a touch in progress and bad posture detected (one frame of each, at
  time 1000).
\<close>

definition touchingState :: state where
  "touchingState = handlePostureState True 1000 (handleTouchState True True 1000 state100)"

text \<open>
  The state \<open>src/detect.js\<close> starts with (its cooldown is 3000 ms; the posture fields
  and the timers are not part of it and stay as they are), and that monitor one frame
  after a touch that began at time 1000 has ended, its cooldown still running.
\<close>

definition detectJsState :: state where
  "detectJsState = state100\<lparr>settings := defaultSettings\<lparr>alertCooldownMs := 3000\<rparr>\<rparr>"

definition coolingState :: state where
  "coolingState =
     handleTouchState_detect_js False True 1016 (handleTouchState_detect_js True True 1000 detectJsState)"

section \<open>Lemmas on the touch check\<close>

lemma find_app:
  "find P (xs @ ys) = (case find P xs of None \<Rightarrow> find P ys | Some x \<Rightarrow> Some x)"
  by (induction xs) auto

lemma find_mapped: "find P (map f xs) = map_option f (find (\<lambda>x. P (f x)) xs)"
  by (induction xs) auto

lemma minDistFrom_Fin:
  "minDistFrom (Fin m) p ts = Fin (fold min (map (dist2d p) ts) m)"
  by (induction ts arbitrary: m) (auto simp: Let_def min_def)

lemma getMinDistance_Nil: "getMinDistance p [] = PosInf"
  by (simp add: getMinDistance_def)

lemma getMinDistance_Cons:
  "getMinDistance p (t # ts) = Fin (Min (dist2d p ` set (t # ts)))"
proof -
  have "getMinDistance p (t # ts) = Fin (fold min (map (dist2d p) ts) (dist2d p t))"
    by (simp add: getMinDistance_def Let_def minDistFrom_Fin)
  also have "fold min (map (dist2d p) ts) (dist2d p t) = Min (set (dist2d p t # map (dist2d p) ts))"
    by (simp only: Min.set_eq_fold)
  finally show ?thesis by simp
qed

lemma threshold_pos: "0 < s \<Longrightarrow> threshold s = Fin (40 / (s / 100))"
  by (simp add: threshold_def js_div_def Let_def)

lemma avgFaceZ_mean: "avgFaceZ points = meanZ points"
proof -
  have "foldl (\<lambda>sum p. sum + pt_z p) a points = a + sum_list (map pt_z points)" for a
    by (induction points arbitrary: a) auto
  then show ?thesis by (simp add: avgFaceZ_def meanZ_def)
qed

lemma dist2d_level: "pt_y p = pt_y t \<Longrightarrow> dist2d p t = \<bar>pt_x p - pt_x t\<bar>"
  by (simp add: dist2d_def Let_def)

lemma FACE_REGIONS_bound: "idx \<in> set (FACE_REGIONS r) \<Longrightarrow> idx < 467"
  by (cases r) (auto simp: FACE_REGIONS_def)

lemma FACE_REGIONS_nonempty: "FACE_REGIONS r \<noteq> []"
  by (cases r) (simp_all add: FACE_REGIONS_def)

lemma FINGERTIPS_bound: "tipIdx \<in> set FINGERTIPS \<Longrightarrow> tipIdx < 21"
  by (auto simp: FINGERTIPS_def)

lemma enabledZones_filter:
  "enabledZones zs =
     filter (zoneFlag zs) [Mouth, Nose, LeftEye, RightEye, LeftCheek, RightCheek, Chin]"
  by (simp add: enabledZones_def zoneFlag_def)

lemma enabledZones_set: "r \<in> set (enabledZones zs) \<longleftrightarrow> zoneFlag zs r"
  by (cases r) (auto simp: enabledZones_filter)

subsection \<open>The loops on well-formed landmarks\<close>

lemma regionPoints_ok:
  "\<forall>idx \<in> set idxs. idx < length face \<Longrightarrow>
   regionPoints w h face idxs = Inr (map (\<lambda>idx. toPixel w h (face ! idx)) idxs)"
  by (induction idxs) (auto simp: landmarkAt_def)

lemma facePoints_ok:
  assumes "467 \<le> length face"
  shows "facePoints w h face ez = Inr (map (\<lambda>r. (r, zonePoints w h face r)) ez)"
proof (induction ez)
  case Nil
  show ?case by simp
next
  case (Cons r ez)
  have "\<forall>idx \<in> set (FACE_REGIONS r). idx < length face"
    using assms FACE_REGIONS_bound[of _ r] by fastforce
  then have "regionPoints w h face (FACE_REGIONS r) = Inr (zonePoints w h face r)"
    unfolding zonePoints_def by (rule regionPoints_ok)
  with Cons show ?case by simp
qed

lemma checkRegions_find:
  "checkRegions sens tip (map (\<lambda>r. (r, f r)) ez) =
     find (\<lambda>r. proximityTest sens tip (f r) \<and> zDiff tip (f r) < 50) ez"
  by (induction ez) auto

lemma checkFingertips_find:
  assumes "\<forall>tipIdx \<in> set idxs. tipIdx < length hand"
  shows "checkFingertips w h sens (map (\<lambda>r. (r, zonePoints w h face r)) ez) hand idxs =
     Inr (map_option zoneOf
            (find (pairAccepted w h sens face) [(hand, tipIdx, r). tipIdx \<leftarrow> idxs, r \<leftarrow> ez]))"
  using assms
proof (induction idxs)
  case Nil
  show ?case by simp
next
  case (Cons tipIdx idxs)
  have in_range: "landmarkAt hand tipIdx = Inr (hand ! tipIdx)"
    using Cons.prems by (simp add: landmarkAt_def)
  have here: "find (pairAccepted w h sens face) (map (\<lambda>r. (hand, tipIdx, r)) ez) =
      map_option (\<lambda>r. (hand, tipIdx, r))
        (checkRegions sens (toPixel w h (hand ! tipIdx)) (map (\<lambda>r. (r, zonePoints w h face r)) ez))"
    by (simp add: find_mapped checkRegions_find pairAccepted_def zoneOf_def)
  show ?case
    using Cons.IH Cons.prems
    by (cases "checkRegions sens (toPixel w h (hand ! tipIdx)) (map (\<lambda>r. (r, zonePoints w h face r)) ez)")
       (simp_all add: in_range find_app here zoneOf_def)
qed

lemma checkHands_find:
  assumes "\<forall>hand \<in> set hands. 21 \<le> length hand"
  shows "checkHands w h sens (map (\<lambda>r. (r, zonePoints w h face r)) ez) hands =
     Inr (map_option zoneOf (find (pairAccepted w h sens face) (candidates hands ez)))"
  using assms
proof (induction hands)
  case Nil
  show ?case by (simp add: candidates_def)
next
  case (Cons hand hands)
  have "\<forall>tipIdx \<in> set FINGERTIPS. tipIdx < length hand"
    using Cons.prems FINGERTIPS_bound by fastforce
  note tips = checkFingertips_find[OF this, of w h sens face ez]
  have split: "candidates (hand # hands) ez =
      [(hand, tipIdx, r). tipIdx \<leftarrow> FINGERTIPS, r \<leftarrow> ez] @ candidates hands ez"
    by (simp add: candidates_def)
  show ?case
    using Cons.IH Cons.prems
    by (cases "find (pairAccepted w h sens face) [(hand, tipIdx, r). tipIdx \<leftarrow> FINGERTIPS, r \<leftarrow> ez]")
       (simp_all add: tips split find_app)
qed

lemma checkFaceTouch_first:
  assumes "wellFormed face hands"
  shows "checkFaceTouch (Some face) hands st =
     Inr (report st (map_option zoneOf
        (find (pairAccepted (canvas_width st) (canvas_height st) (sensitivity (settings st)) face)
              (candidates hands (enabledZones (zones (settings st)))))))"
proof -
  let ?ez = "enabledZones (zones (settings st))"
  have fp: "facePoints w h face ?ez = Inr (map (\<lambda>r. (r, zonePoints w h face r)) ?ez)" for w h
    using assms by (simp add: wellFormed_def facePoints_ok)
  have hs: "\<forall>hand \<in> set hands. 21 \<le> length hand"
    using assms by (simp add: wellFormed_def)
  have c0: "candidates [] ez = []" for ez by (simp add: candidates_def)
  have c1: "candidates hs [] = []" for hs by (simp add: candidates_def FINGERTIPS_def)
  show ?thesis
    by (auto simp: checkFaceTouch_def Let_def fp checkHands_find[OF hs] report_def c0 c1
             split: option.splits)
qed

subsection \<open>The loops on any landmarks\<close>

lemma facePoints_keys: "facePoints w h face ez = Inr fps \<Longrightarrow> map fst fps = ez"
  by (induction ez arbitrary: fps) (auto split: sum.splits)

lemma checkRegions_mem: "checkRegions sens tip fps = Some r \<Longrightarrow> r \<in> fst ` set fps"
  by (induction sens tip fps rule: checkRegions.induct) (auto split: if_splits)

lemma checkFingertips_mem:
  "checkFingertips w h sens fps hand idxs = Inr (Some r) \<Longrightarrow> r \<in> fst ` set fps"
proof (induction idxs)
  case Nil
  then show ?case by simp
next
  case (Cons tipIdx idxs)
  then show ?case
    by (auto split: sum.splits option.splits dest: checkRegions_mem)
qed

lemma checkHands_mem:
  "checkHands w h sens fps hands = Inr (Some r) \<Longrightarrow> r \<in> fst ` set fps"
proof (induction hands)
  case Nil
  then show ?case by simp
next
  case (Cons hand hands)
  then show ?case
    by (auto split: sum.splits option.splits dest: checkFingertips_mem)
qed

lemma checkFaceTouch_report:
  assumes "checkFaceTouch faceLandmarks handLandmarksList st = Inr (b, st')"
  shows "\<exists>found. (b, st') = report st found \<and>
           (\<forall>r. found = Some r \<longrightarrow> r \<in> set (enabledZones (zones (settings st))))"
proof -
  let ?ez = "enabledZones (zones (settings st))"
  consider (short) "faceLandmarks = None \<or> handLandmarksList = [] \<or> ?ez = []"
    | (loops) face where "faceLandmarks = Some face" "handLandmarksList \<noteq> []" "?ez \<noteq> []"
    by (cases faceLandmarks) auto
  then show ?thesis
  proof cases
    case short
    then have "checkFaceTouch faceLandmarks handLandmarksList st = Inr (report st None)"
      by (auto simp: checkFaceTouch_def Let_def report_def split: option.splits)
    with assms have "(b, st') = report st None" by simp
    then show ?thesis by blast
  next
    case loops
    from assms loops obtain fps where
      fps: "facePoints (canvas_width st) (canvas_height st) face ?ez = Inr fps"
      by (auto simp: checkFaceTouch_def Let_def split: sum.splits)
    from assms loops fps obtain found where
      hands: "checkHands (canvas_width st) (canvas_height st) (sensitivity (settings st)) fps
                handLandmarksList = Inr found"
      by (auto simp: checkFaceTouch_def Let_def split: sum.splits)
    have "checkFaceTouch faceLandmarks handLandmarksList st = Inr (report st found)"
      using loops fps hands
      by (cases found) (simp_all add: checkFaceTouch_def Let_def report_def)
    with assms have res: "(b, st') = report st found" by simp
    have "r \<in> set ?ez" if "found = Some r" for r
    proof -
      from hands that have "r \<in> fst ` set fps" by (auto dest: checkHands_mem)
      then show ?thesis using facePoints_keys[OF fps] by (metis set_map)
    qed
    with res show ?thesis by blast
  qed
qed

subsection \<open>Evaluating the example inputs\<close>

lemma minDistFrom_replicate:
  "minDistFrom (Fin m) p (replicate n t) = (if n = 0 then Fin m else Fin (min m (dist2d p t)))"
  by (induction n arbitrary: m) (auto simp: Let_def min_def)

lemma getMinDistance_replicate:
  "getMinDistance p (replicate n t) = (if n = 0 then PosInf else Fin (dist2d p t))"
  by (cases n) (simp_all add: getMinDistance_def Let_def minDistFrom_replicate)

lemma meanZ_replicate: "n \<noteq> 0 \<Longrightarrow> meanZ (replicate n t) = pt_z t"
  by (simp add: meanZ_def sum_list_replicate)

lemma zonePoints_uniform:
  assumes "467 \<le> n"
  shows "zonePoints w h (replicate n l) r = replicate (length (FACE_REGIONS r)) (toPixel w h l)"
proof -
  have "map (\<lambda>idx. toPixel w h (replicate n l ! idx)) idxs = replicate (length idxs) (toPixel w h l)"
    if "\<forall>idx \<in> set idxs. idx < n" for idxs
    using that by (induction idxs) simp_all
  moreover have "\<forall>idx \<in> set (FACE_REGIONS r). idx < n"
    using assms FACE_REGIONS_bound[of _ r] by fastforce
  ultimately show ?thesis by (simp add: zonePoints_def)
qed

lemma zonePoints_update:
  "idx \<notin> set (FACE_REGIONS r) \<Longrightarrow> zonePoints w h (face[idx := l]) r = zonePoints w h face r"
  unfolding zonePoints_def by (rule map_cong[OF refl]) (metis nth_list_update_neq)

lemma flatFace_origin: "toPixel w h (lmk 0 0 0) = \<lparr>pt_x = 0, pt_y = 0, pt_z = 0\<rparr>"
  by (simp add: toPixel_def lmk_def)

lemma flatHand_tip:
  "tipIdx < 21 \<Longrightarrow>
   toPixel w h (flatHand a b c ! tipIdx) = \<lparr>pt_x = a * w, pt_y = b * h, pt_z = c * w\<rparr>"
  by (simp add: flatHand_def toPixel_def lmk_def)

lemma example_tips:
  "tipIdx < 21 \<Longrightarrow> toPixel 100 100 (nearHand ! tipIdx) = \<lparr>pt_x = 39, pt_y = 0, pt_z = 10\<rparr>"
  "tipIdx < 21 \<Longrightarrow> toPixel 100 100 (deepHand ! tipIdx) = \<lparr>pt_x = 10, pt_y = 0, pt_z = 60\<rparr>"
  "tipIdx < 21 \<Longrightarrow> toPixel 100 100 (noseHand ! tipIdx) = \<lparr>pt_x = 30, pt_y = 0, pt_z = 0\<rparr>"
  by (simp_all add: nearHand_def deepHand_def noseHand_def flatHand_tip)

lemma example_wellFormed:
  "wellFormed flatFace [nearHand]" "wellFormed flatFace [deepHand]" "wellFormed noseFace [noseHand]"
  by (simp_all add: wellFormed_def flatFace_def noseFace_def nearHand_def deepHand_def
      noseHand_def flatHand_def)

lemma state100_fields:
  "canvas_width state100 = 100"
  "canvas_height state100 = 100"
  "sensitivity (settings state100) = 100"
  "enabledZones (zones (settings state100)) = [Mouth, Nose, LeftEye, RightEye]"
  "zoneFlag (zones (settings state100)) Mouth"
  by (simp_all add: state100_def initialState_def defaultSettings_def enabledZones_def zoneFlag_def)

lemma candidates_one_hand:
  "candidates [hand] [Mouth, Nose, LeftEye, RightEye] =
     [(hand, 4, Mouth), (hand, 4, Nose), (hand, 4, LeftEye), (hand, 4, RightEye),
      (hand, 8, Mouth), (hand, 8, Nose), (hand, 8, LeftEye), (hand, 8, RightEye),
      (hand, 12, Mouth), (hand, 12, Nose), (hand, 12, LeftEye), (hand, 12, RightEye),
      (hand, 16, Mouth), (hand, 16, Nose), (hand, 16, LeftEye), (hand, 16, RightEye),
      (hand, 20, Mouth), (hand, 20, Nose), (hand, 20, LeftEye), (hand, 20, RightEye)]"
  by (simp add: candidates_def FINGERTIPS_def)

lemma flatFace_points:
  "zonePoints 100 100 flatFace r = replicate (length (FACE_REGIONS r)) \<lparr>pt_x = 0, pt_y = 0, pt_z = 0\<rparr>"
  by (simp add: flatFace_def zonePoints_uniform flatFace_origin)

lemma uniform_zone:
  assumes "n \<noteq> 0" and "pt_y p = 0"
  shows "getMinDistance p (replicate n \<lparr>pt_x = 0, pt_y = 0, pt_z = 0\<rparr>) = Fin \<bar>pt_x p\<bar>"
    and "zDiff p (replicate n \<lparr>pt_x = 0, pt_y = 0, pt_z = 0\<rparr>) = pt_z p"
  using assms
  by (simp_all add: getMinDistance_replicate dist2d_level zDiff_def avgFaceZ_mean meanZ_replicate)

lemma flat_pairs:
  assumes "tipIdx < 21"
  shows "pairDistance 100 100 flatFace (nearHand, tipIdx, r) = Fin 39"
    and "zDiff (toPixel 100 100 (nearHand ! tipIdx)) (zonePoints 100 100 flatFace r) = 10"
    and "pairDistance 100 100 flatFace (deepHand, tipIdx, r) = Fin 10"
    and "zDiff (toPixel 100 100 (deepHand ! tipIdx)) (zonePoints 100 100 flatFace r) = 60"
  using assms
  by (simp_all add: pairDistance_def zoneOf_def flatFace_points example_tips uniform_zone
      FACE_REGIONS_nonempty)

lemma pairAccepted_via_distance:
  "pairAccepted w h sens face (hand, tipIdx, r) \<longleftrightarrow>
     num_lt (pairDistance w h face (hand, tipIdx, r)) (threshold sens) \<and>
     zDiff (toPixel w h (hand ! tipIdx)) (zonePoints w h face r) < 50"
  by (simp add: pairAccepted_def pairDistance_def proximityTest_def zoneOf_def)

lemma threshold_100: "threshold 100 = Fin 40"
  by (simp add: threshold_def js_div_def)

lemma flat_accepted:
  assumes "tipIdx < 21"
  shows "pairAccepted 100 100 100 flatFace (nearHand, tipIdx, r)"
    and "\<not> pairAccepted 100 100 100 flatFace (deepHand, tipIdx, r)"
  by (simp_all add: pairAccepted_via_distance flat_pairs[OF assms] threshold_100)

lemma touch_near:
  "checkFaceTouch (Some flatFace) [nearHand] state100 =
     Inr (True, state100\<lparr>lastTouchedZone := Some Mouth\<rparr>)"
  by (simp add: checkFaceTouch_first[OF example_wellFormed(1)] state100_fields candidates_one_hand
      flat_accepted report_def zoneOf_def)

lemma touch_deep:
  "checkFaceTouch (Some flatFace) [deepHand] state100 =
     Inr (False, state100\<lparr>lastTouchedZone := None\<rparr>)"
  by (simp add: checkFaceTouch_first[OF example_wellFormed(2)] state100_fields candidates_one_hand
      flat_accepted report_def zoneOf_def)

lemma noseFace_points:
  "zonePoints 100 100 noseFace Nose =
     \<lparr>pt_x = 30, pt_y = 0, pt_z = 0\<rparr> # replicate 24 \<lparr>pt_x = 0, pt_y = 0, pt_z = 0\<rparr>"
  "r \<noteq> Nose \<Longrightarrow> zonePoints 100 100 noseFace r =
     replicate (length (FACE_REGIONS r)) \<lparr>pt_x = 0, pt_y = 0, pt_z = 0\<rparr>"
proof -
  assume "r \<noteq> Nose"
  then have "1 \<notin> set (FACE_REGIONS r)"
    by (cases r) (simp_all add: FACE_REGIONS_def)
  then have "zonePoints 100 100 noseFace r = zonePoints 100 100 flatFace r"
    unfolding noseFace_def by (rule zonePoints_update)
  then show "zonePoints 100 100 noseFace r =
     replicate (length (FACE_REGIONS r)) \<lparr>pt_x = 0, pt_y = 0, pt_z = 0\<rparr>"
    by (simp add: flatFace_points)
next
  define rest where "rest = tl (FACE_REGIONS Nose)"
  have split: "FACE_REGIONS Nose = 1 # rest"
    by (simp add: rest_def FACE_REGIONS_def)
  have away: "\<forall>idx \<in> set rest. idx \<noteq> 1 \<and> idx < 478"
    by (simp add: rest_def FACE_REGIONS_def)
  have len: "length rest = 24"
    by (simp add: rest_def FACE_REGIONS_def)
  have nth_other: "noseFace ! idx = lmk 0 0 0" if "idx \<noteq> 1" "idx < 478" for idx
  proof -
    have "noseFace ! idx = flatFace ! idx"
      unfolding noseFace_def using that(1) by (simp only: nth_list_update_neq not_sym)
    also have "\<dots> = lmk 0 0 0"
      unfolding flatFace_def using that(2) by (rule nth_replicate)
    finally show ?thesis .
  qed
  have tail: "map (\<lambda>idx. toPixel 100 100 (noseFace ! idx)) idxs =
      replicate (length idxs) \<lparr>pt_x = 0, pt_y = 0, pt_z = 0\<rparr>"
    if "\<forall>idx \<in> set idxs. idx \<noteq> 1 \<and> idx < 478" for idxs
    using that by (induction idxs) (simp_all add: nth_other flatFace_origin)
  have "noseFace ! 1 = lmk (3/10) 0 0"
    unfolding noseFace_def flatFace_def by (rule nth_list_update_eq) simp
  then have head: "toPixel 100 100 (noseFace ! 1) = \<lparr>pt_x = 30, pt_y = 0, pt_z = 0\<rparr>"
    by (simp add: toPixel_def lmk_def)
  show "zonePoints 100 100 noseFace Nose =
     \<lparr>pt_x = 30, pt_y = 0, pt_z = 0\<rparr> # replicate 24 \<lparr>pt_x = 0, pt_y = 0, pt_z = 0\<rparr>"
    unfolding zonePoints_def split by (simp only: list.map head tail[OF away] len)
qed

lemma nose_pairs:
  assumes "tipIdx < 21"
  shows "pairDistance 100 100 noseFace (noseHand, tipIdx, Nose) = Fin 0"
    and "r \<noteq> Nose \<Longrightarrow> pairDistance 100 100 noseFace (noseHand, tipIdx, r) = Fin 30"
    and "zDiff (toPixel 100 100 (noseHand ! tipIdx)) (zonePoints 100 100 noseFace r) = 0"
proof -
  show "pairDistance 100 100 noseFace (noseHand, tipIdx, Nose) = Fin 0"
    using assms
    by (simp add: pairDistance_def zoneOf_def noseFace_points example_tips getMinDistance_def
        Let_def dist2d_level minDistFrom_replicate)
  show "r \<noteq> Nose \<Longrightarrow> pairDistance 100 100 noseFace (noseHand, tipIdx, r) = Fin 30"
    using assms
    by (simp add: pairDistance_def zoneOf_def noseFace_points example_tips uniform_zone
        FACE_REGIONS_nonempty)
  show "zDiff (toPixel 100 100 (noseHand ! tipIdx)) (zonePoints 100 100 noseFace r) = 0"
    using assms
    by (cases "r = Nose")
       (simp_all add: noseFace_points example_tips uniform_zone FACE_REGIONS_nonempty
          zDiff_def avgFaceZ_mean meanZ_def sum_list_replicate)
qed

lemma nose_accepted:
  assumes "tipIdx < 21"
  shows "pairAccepted 100 100 100 noseFace (noseHand, tipIdx, r)"
  using nose_pairs(1)[OF assms] nose_pairs(2)[OF assms, of r] nose_pairs(3)[OF assms, of r]
  by (cases "r = Nose") (simp_all add: pairAccepted_via_distance threshold_100)

lemma nose_nearer_mouth_first:
  "wellFormed noseFace [noseHand] \<and>
   checkFaceTouch (Some noseFace) [noseHand] state100 =
     Inr (True, state100\<lparr>lastTouchedZone := Some Mouth\<rparr>) \<and>
   (noseHand, 4, Nose) \<in> set (candidates [noseHand] (enabledZones (zones (settings state100)))) \<and>
   zoneOf (noseHand, 4, Nose) \<noteq> Mouth \<and>
   pairAccepted (canvas_width state100) (canvas_height state100) (sensitivity (settings state100))
     noseFace (noseHand, 4, Nose) \<and>
   (\<forall>c \<in> set (candidates [noseHand] (enabledZones (zones (settings state100)))).
      zoneOf c = Mouth \<longrightarrow>
      num_lt (pairDistance (canvas_width state100) (canvas_height state100) noseFace (noseHand, 4, Nose))
             (pairDistance (canvas_width state100) (canvas_height state100) noseFace c))"
  by (simp add: example_wellFormed checkFaceTouch_first[OF example_wellFormed(3)] state100_fields
      candidates_one_hand nose_accepted nose_pairs report_def zoneOf_def)

section \<open>Claims on the touch check\<close>

text \<open>
  C1. For every sensitivity \<open>s > 0\<close> the touch distance threshold is \<open>40 / (s / 100)\<close>
  pixel units: 40 at 100, 20 at 200, 80 at 50. A fingertip passes the proximity test of
  \<open>checkFaceTouch\<close> for a zone's pixel-space point list exactly when the minimum over the
  list of the 2-D Euclidean distance \<open>sqrt (dx\<^sup>2 + dy\<^sup>2)\<close> is strictly less than the
  threshold; at a distance equal to or above the threshold it does not pass.
\<close>

theorem proximity_threshold:
  assumes "0 < s"
  shows "threshold s = Fin (40 / (s / 100)) \<and>
         threshold 100 = Fin 40 \<and> threshold 200 = Fin 20 \<and> threshold 50 = Fin 80 \<and>
         (proximityTest s tip points \<longleftrightarrow>
            points \<noteq> [] \<and>
            Min ((\<lambda>t. sqrt ((pt_x tip - pt_x t)\<^sup>2 + (pt_y tip - pt_y t)\<^sup>2)) ` set points)
              < 40 / (s / 100))"
proof -
  have d: "dist2d tip = (\<lambda>t. sqrt ((pt_x tip - pt_x t)\<^sup>2 + (pt_y tip - pt_y t)\<^sup>2))"
    by (rule ext) (simp add: dist2d_def Let_def power2_eq_square)
  have t: "threshold s = Fin (40 / (s / 100))" using assms by (rule threshold_pos)
  have p: "proximityTest s tip points \<longleftrightarrow>
            points \<noteq> [] \<and> Min (dist2d tip ` set points) < 40 / (s / 100)"
  proof (cases points)
    case Nil
    then show ?thesis by (simp add: proximityTest_def getMinDistance_Nil)
  next
    case (Cons a list)
    then show ?thesis by (simp only: proximityTest_def getMinDistance_Cons t num_lt.simps) simp
  qed
  have c: "threshold 100 = Fin 40 \<and> threshold 200 = Fin 20 \<and> threshold 50 = Fin 80"
    by (simp add: threshold_def js_div_def Let_def)
  show ?thesis using t p c unfolding d by blast
qed

text \<open>
  At sensitivity 100 a fingertip 39 pixels from the only point of a zone passes, and one
  exactly 40 pixels away does not.
\<close>

theorem proximity_threshold_witness:
  "(0::real) < 100 \<and> threshold 100 = Fin (40 / (100 / 100)) \<and>
   proximityTest 100 \<lparr>pt_x = 39, pt_y = 0, pt_z = 0\<rparr> [\<lparr>pt_x = 0, pt_y = 0, pt_z = 0\<rparr>] \<and>
   \<not> proximityTest 100 \<lparr>pt_x = 40, pt_y = 0, pt_z = 0\<rparr> [\<lparr>pt_x = 0, pt_y = 0, pt_z = 0\<rparr>]"
proof -
  have pos: "(0::real) < 100" by simp
  have r39: "sqrt 1521 = 39" by (rule real_sqrt_unique) simp_all
  have r40: "sqrt 1600 = 40" by (rule real_sqrt_unique) simp_all
  show ?thesis
    using proximity_threshold[OF pos, of "\<lparr>pt_x = 39, pt_y = 0, pt_z = 0\<rparr>" "[\<lparr>pt_x = 0, pt_y = 0, pt_z = 0\<rparr>]"]
          proximity_threshold[OF pos, of "\<lparr>pt_x = 40, pt_y = 0, pt_z = 0\<rparr>" "[\<lparr>pt_x = 0, pt_y = 0, pt_z = 0\<rparr>]"]
    by (simp add: r39 r40)
qed

text \<open>
  C2. On well-formed landmarks \<open>checkFaceTouch\<close> reports a touch exactly when some
  fingertip-zone pair passes the proximity test and has
  \<open>zDiff = fingertipZ - avgZoneZ < 50\<close>, where \<open>avgZoneZ\<close> is the arithmetic mean of the z
  values of the zone's pixel-space points: a pair that passes the proximity test is
  accepted if and only if its \<open>zDiff\<close> is strictly below 50.
\<close>

theorem depth_guard:
  assumes "wellFormed face hands"
    and "w = canvas_width st" and "h = canvas_height st" and "sens = sensitivity (settings st)"
  shows "\<exists>found. checkFaceTouch (Some face) hands st = Inr (found \<noteq> None, st\<lparr>lastTouchedZone := found\<rparr>) \<and>
     (found \<noteq> None \<longleftrightarrow>
        (\<exists>c \<in> set (candidates hands (enabledZones (zones (settings st)))).
           proximityTest sens (toPixel w h (fst c ! fst (snd c))) (zonePoints w h face (zoneOf c)) \<and>
           pt_z (toPixel w h (fst c ! fst (snd c))) - meanZ (zonePoints w h face (zoneOf c)) < 50))"
proof -
  let ?cs = "candidates hands (enabledZones (zones (settings st)))"
  let ?found = "map_option zoneOf (find (pairAccepted w h sens face) ?cs)"
  have "checkFaceTouch (Some face) hands st = Inr (?found \<noteq> None, st\<lparr>lastTouchedZone := ?found\<rparr>)"
    using checkFaceTouch_first[OF assms(1), of st] assms(2-4) by (simp add: report_def)
  moreover have "?found \<noteq> None \<longleftrightarrow> (\<exists>c \<in> set ?cs. pairAccepted w h sens face c)"
    by (auto simp: find_None_iff)
  ultimately show ?thesis
    unfolding pairAccepted_def zDiff_def avgFaceZ_mean by blast
qed

text \<open>
  At sensitivity 100, with every fingertip at 2-D distance 10 from every zone and with
  \<open>zDiff = 60\<close>, no touch is reported.
\<close>

theorem depth_guard_witness:
  "wellFormed flatFace [deepHand] \<and>
   list_all (\<lambda>c. pairDistance 100 100 flatFace c = Fin 10 \<and>
      zDiff (toPixel 100 100 (fst c ! fst (snd c))) (zonePoints 100 100 flatFace (zoneOf c)) = 60)
     (candidates [deepHand] (enabledZones (zones (settings state100)))) \<and>
   checkFaceTouch (Some flatFace) [deepHand] state100 =
     Inr (False, state100\<lparr>lastTouchedZone := None\<rparr>)"
proof -
  have wf: "wellFormed flatFace [deepHand]" by (rule example_wellFormed)
  have rejected: "\<forall>c \<in> set (candidates [deepHand] (enabledZones (zones (settings state100)))).
      pairDistance 100 100 flatFace c = Fin 10 \<and>
      zDiff (toPixel 100 100 (fst c ! fst (snd c))) (zonePoints 100 100 flatFace (zoneOf c)) = 60"
    by (simp add: state100_fields candidates_one_hand flat_pairs zoneOf_def)
  have "\<exists>found. checkFaceTouch (Some flatFace) [deepHand] state100 =
            Inr (found \<noteq> None, state100\<lparr>lastTouchedZone := found\<rparr>) \<and>
     (found \<noteq> None \<longleftrightarrow>
        (\<exists>c \<in> set (candidates [deepHand] (enabledZones (zones (settings state100)))).
           proximityTest 100 (toPixel 100 100 (fst c ! fst (snd c))) (zonePoints 100 100 flatFace (zoneOf c)) \<and>
           pt_z (toPixel 100 100 (fst c ! fst (snd c))) - meanZ (zonePoints 100 100 flatFace (zoneOf c)) < 50))"
    by (rule depth_guard[OF wf refl refl refl, of state100, unfolded state100_fields(1-3)])
  then obtain found where
    res: "checkFaceTouch (Some flatFace) [deepHand] state100 =
            Inr (found \<noteq> None, state100\<lparr>lastTouchedZone := found\<rparr>)"
    and iff: "found \<noteq> None \<longleftrightarrow>
        (\<exists>c \<in> set (candidates [deepHand] (enabledZones (zones (settings state100)))).
           proximityTest 100 (toPixel 100 100 (fst c ! fst (snd c))) (zonePoints 100 100 flatFace (zoneOf c)) \<and>
           pt_z (toPixel 100 100 (fst c ! fst (snd c))) - meanZ (zonePoints 100 100 flatFace (zoneOf c)) < 50)"
    by blast
  have "found = None"
  proof (rule ccontr)
    assume "found \<noteq> None"
    with iff obtain c where
      c: "c \<in> set (candidates [deepHand] (enabledZones (zones (settings state100))))"
      and z: "pt_z (toPixel 100 100 (fst c ! fst (snd c))) - meanZ (zonePoints 100 100 flatFace (zoneOf c)) < 50"
      by blast
    from rejected c
    have "zDiff (toPixel 100 100 (fst c ! fst (snd c))) (zonePoints 100 100 flatFace (zoneOf c)) = 60"
      by blast
    with z show False by (simp add: zDiff_def avgFaceZ_mean)
  qed
  with res have "checkFaceTouch (Some flatFace) [deepHand] state100 =
     Inr (False, state100\<lparr>lastTouchedZone := None\<rparr>)"
    by simp
  with wf rejected show ?thesis unfolding list_all_iff by blast
qed

text \<open>
  C8. Without a face, without hands, or with every zone disabled, \<open>checkFaceTouch\<close>
  returns false and sets the last touched zone to null. This holds for every face and
  every list of hands, also for landmark lists too short for the region tables, on which
  the conversion to pixel space would throw: with all zones disabled the function returns
  before that conversion and before any distance is computed.
\<close>

theorem checkFaceTouch_short_circuit:
  assumes "faceLandmarks = None \<or> handLandmarksList = [] \<or> enabledZones (zones (settings st)) = []"
  shows "checkFaceTouch faceLandmarks handLandmarksList st = Inr (False, st\<lparr>lastTouchedZone := None\<rparr>)"
  using assms by (auto simp: checkFaceTouch_def Let_def split: option.splits)

text \<open>
  With every zone disabled an empty face, on which any conversion would throw, and a
  hand without landmarks give no touch; with a zone enabled the same call throws.
\<close>

theorem checkFaceTouch_short_circuit_witness:
  "enabledZones (zones (settings allZonesOff)) = [] \<and>
   checkFaceTouch (Some []) [[]] allZonesOff = Inr (False, allZonesOff\<lparr>lastTouchedZone := None\<rparr>) \<and>
   checkFaceTouch (Some []) [[]] state100 = Inl TypeError"
proof -
  have off: "enabledZones (zones (settings allZonesOff)) = []"
    by (simp add: allZonesOff_def enabledZones_def)
  have throws: "checkFaceTouch (Some []) [[]] state100 = Inl TypeError"
    by (simp add: checkFaceTouch_def Let_def state100_fields FACE_REGIONS_def landmarkAt_def)
  show ?thesis
    using off throws checkFaceTouch_short_circuit[of "Some []" "[[]]" allZonesOff] by simp
qed

text \<open>
  C9. On well-formed landmarks \<open>checkFaceTouch\<close> reports the zone of the first
  fingertip-zone pair that passes both the proximity and the depth test, the pairs
  taken hand by hand in list order, within a hand fingertip by fingertip in the order
  thumb, index, middle, ring, pinky (indices 4, 8, 12, 16, 20), and within a fingertip
  zone by zone in the order mouth, nose, leftEye, rightEye, leftCheek, rightCheek, chin
  over the enabled zones; it reports no touch when no pair passes. The zone reported is
  not always one at the least distance: there is an input on which an enabled zone
  other than the reported one is strictly nearer to a fingertip, and accepted, than the
  reported zone is to any fingertip.
\<close>

theorem first_match_reported:
  "(wellFormed face hands \<longrightarrow>
      checkFaceTouch (Some face) hands st =
        Inr (report st (map_option zoneOf
          (find (pairAccepted (canvas_width st) (canvas_height st) (sensitivity (settings st)) face)
            (candidates hands (enabledZones (zones (settings st)))))))) \<and>
   candidates hands (enabledZones zs) =
     [(hand, tipIdx, r). hand \<leftarrow> hands, tipIdx \<leftarrow> [4, 8, 12, 16, 20],
        r \<leftarrow> filter (zoneFlag zs) [Mouth, Nose, LeftEye, RightEye, LeftCheek, RightCheek, Chin]] \<and>
   (\<exists>face' hands' st' r c'.
      wellFormed face' hands' \<and>
      checkFaceTouch (Some face') hands' st' = Inr (True, st'\<lparr>lastTouchedZone := Some r\<rparr>) \<and>
      c' \<in> set (candidates hands' (enabledZones (zones (settings st')))) \<and>
      zoneOf c' \<noteq> r \<and>
      pairAccepted (canvas_width st') (canvas_height st') (sensitivity (settings st')) face' c' \<and>
      (\<forall>c \<in> set (candidates hands' (enabledZones (zones (settings st')))).
         zoneOf c = r \<longrightarrow>
         num_lt (pairDistance (canvas_width st') (canvas_height st') face' c')
                (pairDistance (canvas_width st') (canvas_height st') face' c)))"
proof (intro conjI impI)
  assume "wellFormed face hands"
  then show "checkFaceTouch (Some face) hands st =
        Inr (report st (map_option zoneOf
          (find (pairAccepted (canvas_width st) (canvas_height st) (sensitivity (settings st)) face)
            (candidates hands (enabledZones (zones (settings st)))))))"
    by (rule checkFaceTouch_first)
next
  show "candidates hands (enabledZones zs) =
     [(hand, tipIdx, r). hand \<leftarrow> hands, tipIdx \<leftarrow> [4, 8, 12, 16, 20],
        r \<leftarrow> filter (zoneFlag zs) [Mouth, Nose, LeftEye, RightEye, LeftCheek, RightCheek, Chin]]"
    by (simp only: candidates_def FINGERTIPS_def enabledZones_filter)
next
  show "\<exists>face' hands' st' r c'.
      wellFormed face' hands' \<and>
      checkFaceTouch (Some face') hands' st' = Inr (True, st'\<lparr>lastTouchedZone := Some r\<rparr>) \<and>
      c' \<in> set (candidates hands' (enabledZones (zones (settings st')))) \<and>
      zoneOf c' \<noteq> r \<and>
      pairAccepted (canvas_width st') (canvas_height st') (sensitivity (settings st')) face' c' \<and>
      (\<forall>c \<in> set (candidates hands' (enabledZones (zones (settings st')))).
         zoneOf c = r \<longrightarrow>
         num_lt (pairDistance (canvas_width st') (canvas_height st') face' c')
                (pairDistance (canvas_width st') (canvas_height st') face' c))"
    using nose_nearer_mouth_first
    by (intro exI[of _ noseFace] exI[of _ "[noseHand]"] exI[of _ state100] exI[of _ Mouth]
          exI[of _ "(noseHand, 4, Nose)"]) blast
qed

text \<open>
  With the nose landmark 1 under the thumb tip and the rest of the face 30 pixels away,
  the mouth is reported although the nose is at distance 0.
\<close>

theorem first_match_reported_witness:
  "wellFormed noseFace [noseHand] \<and>
   checkFaceTouch (Some noseFace) [noseHand] state100 =
     Inr (True, state100\<lparr>lastTouchedZone := Some Mouth\<rparr>) \<and>
   pairDistance 100 100 noseFace (noseHand, 4, Mouth) = Fin 30 \<and>
   pairDistance 100 100 noseFace (noseHand, 4, Nose) = Fin 0"
proof -
  have wf: "wellFormed noseFace [noseHand]" by (rule example_wellFormed)
  have first: "find (pairAccepted 100 100 100 noseFace) (candidates [noseHand] [Mouth, Nose, LeftEye, RightEye])
      = Some (noseHand, 4, Mouth)"
    by (simp add: candidates_one_hand nose_accepted)
  from first_match_reported[of noseFace "[noseHand]" state100] wf
  have "checkFaceTouch (Some noseFace) [noseHand] state100 =
      Inr (report state100 (map_option zoneOf
        (find (pairAccepted 100 100 100 noseFace) (candidates [noseHand] [Mouth, Nose, LeftEye, RightEye]))))"
    by (simp add: state100_fields)
  then show ?thesis
    using wf by (simp add: first report_def zoneOf_def nose_pairs)
qed

text \<open>
  C10. After a call of \<open>checkFaceTouch\<close> that returns, the boolean returned is true if
  and only if the last touched zone recorded is not null, and a zone recorded is one
  whose flag is set in the settings at the time of the call, which the call leaves as
  they are.
\<close>

theorem touch_flag_agrees_with_zone:
  assumes "checkFaceTouch faceLandmarks handLandmarksList st = Inr (b, st')"
  shows "(b \<longleftrightarrow> lastTouchedZone st' \<noteq> None) \<and>
         (\<forall>r. lastTouchedZone st' = Some r \<longrightarrow> zoneFlag (zones (settings st)) r) \<and>
         settings st' = settings st"
proof -
  from checkFaceTouch_report[OF assms] obtain found where
    res: "(b, st') = report st found"
    and mem: "\<forall>r. found = Some r \<longrightarrow> r \<in> set (enabledZones (zones (settings st)))"
    by blast
  from res have "b = (found \<noteq> None)" "st' = st\<lparr>lastTouchedZone := found\<rparr>"
    by (simp_all add: report_def)
  with mem show ?thesis by (simp add: enabledZones_set)
qed

theorem touch_flag_agrees_with_zone_witness:
  "checkFaceTouch (Some flatFace) [nearHand] state100 =
     Inr (True, state100\<lparr>lastTouchedZone := Some Mouth\<rparr>) \<and>
   lastTouchedZone (state100\<lparr>lastTouchedZone := Some Mouth\<rparr>) \<noteq> None \<and>
   zoneFlag (zones (settings state100)) Mouth"
  using touch_flag_agrees_with_zone[OF touch_near] touch_near by simp

section \<open>Lemmas on the posture check\<close>

lemma postureIssues_short: "length pose \<le> 24 \<Longrightarrow> postureIssues ps pose = Inl TypeError"
  by (simp add: postureIssues_def andThen_def landmarkAt_def LEFT_EAR_def RIGHT_EAR_def
      LEFT_SHOULDER_def RIGHT_SHOULDER_def LEFT_HIP_def RIGHT_HIP_def)

lemma exceeds_pos: "0 < sens \<Longrightarrow> exceeds v limit sens \<longleftrightarrow> v > limit / (sens / 100)"
  by (simp add: exceeds_def js_div_def)

lemma postureIssues_shape:
  assumes "24 < length pose"
  shows "postureIssues ps pose = Inr (
     (if visible (earOf pose) \<and> visible (shoulderOf pose) \<and>
         exceeds \<bar>90 - calculateAngle (aboveOf (shoulderOf pose)) (shoulderOf pose) (earOf pose)\<bar>
           (headForwardThreshold ps) (posture_sensitivity ps)
      then [''Head forward''] else []) @
     (if visible (pose ! LEFT_SHOULDER) \<and> visible (pose ! RIGHT_SHOULDER) \<and>
         exceeds \<bar>atan2 (lm_y (pose ! RIGHT_SHOULDER) - lm_y (pose ! LEFT_SHOULDER))
                        (lm_x (pose ! RIGHT_SHOULDER) - lm_x (pose ! LEFT_SHOULDER)) * (180 / pi)\<bar>
           (shoulderSlouchThreshold ps) (posture_sensitivity ps)
      then [''Uneven shoulders''] else []) @
     (if visible (earOf pose) \<and> visible (shoulderOf pose) \<and> visible (hipOf pose) \<and>
         exceeds \<bar>180 - calculateAngle (earOf pose) (shoulderOf pose) (hipOf pose)\<bar>
           (spineAngleThreshold ps) (posture_sensitivity ps)
      then [''Spine curved''] else []) @
     (if visible (shoulderOf pose) \<and> visible (hipOf pose) \<and>
         exceeds (lm_x (shoulderOf pose) - lm_x (hipOf pose)) 0.05 (posture_sensitivity ps)
      then [''Shoulders hunched''] else []))"
proof -
  have at: "landmarkAt pose LEFT_EAR = Inr (pose ! LEFT_EAR)"
    "landmarkAt pose RIGHT_EAR = Inr (pose ! RIGHT_EAR)"
    "landmarkAt pose LEFT_SHOULDER = Inr (pose ! LEFT_SHOULDER)"
    "landmarkAt pose RIGHT_SHOULDER = Inr (pose ! RIGHT_SHOULDER)"
    "landmarkAt pose LEFT_HIP = Inr (pose ! LEFT_HIP)"
    "landmarkAt pose RIGHT_HIP = Inr (pose ! RIGHT_HIP)"
    using assms
    by (simp_all add: landmarkAt_def LEFT_EAR_def RIGHT_EAR_def LEFT_SHOULDER_def
        RIGHT_SHOULDER_def LEFT_HIP_def RIGHT_HIP_def)
  have pick: "(if lm_visibility l > lm_visibility r then l else r) = moreVisible l r" for l r
    by (simp add: moreVisible_def)
  have c1: "headForwardCheck ps (posture_sensitivity ps / 100) ear shoulder issues = issues @
      (if visible ear \<and> visible shoulder \<and>
          exceeds \<bar>90 - calculateAngle (aboveOf shoulder) shoulder ear\<bar>
            (headForwardThreshold ps) (posture_sensitivity ps)
       then [''Head forward''] else [])" for ear shoulder issues
    by (simp add: headForwardCheck_def Let_def visible_def aboveOf_def exceeds_def)
  have c2: "shoulderSlouchCheck ps (posture_sensitivity ps / 100) ls rs issues = issues @
      (if visible ls \<and> visible rs \<and>
          exceeds \<bar>atan2 (lm_y rs - lm_y ls) (lm_x rs - lm_x ls) * (180 / pi)\<bar>
            (shoulderSlouchThreshold ps) (posture_sensitivity ps)
       then [''Uneven shoulders''] else [])" for ls rs issues
    by (simp add: shoulderSlouchCheck_def Let_def visible_def exceeds_def)
  have c3: "spineCheck ps (posture_sensitivity ps / 100) ear shoulder hip issues = issues @
      (if visible ear \<and> visible shoulder \<and> visible hip \<and>
          exceeds \<bar>180 - calculateAngle ear shoulder hip\<bar>
            (spineAngleThreshold ps) (posture_sensitivity ps)
       then [''Spine curved''] else [])" for ear shoulder hip issues
    by (simp add: spineCheck_def Let_def visible_def exceeds_def)
  have c4: "hunchCheck (posture_sensitivity ps / 100) shoulder hip issues = issues @
      (if visible shoulder \<and> visible hip \<and>
          exceeds (lm_x shoulder - lm_x hip) 0.05 (posture_sensitivity ps)
       then [''Shoulders hunched''] else [])" for shoulder hip issues
    by (simp add: hunchCheck_def Let_def visible_def exceeds_def)
  show ?thesis
    unfolding postureIssues_def at andThen_def sum.case Let_def pick c1 c2 c3 c4
      earOf_def shoulderOf_def hipOf_def
    by (simp only: append_Nil append_assoc)
qed

lemma postureIssues_Inr: "postureIssues ps pose = Inr issues \<Longrightarrow> 24 < length pose"
  using postureIssues_short[of pose ps] by (cases "24 < length pose") simp_all

lemma fires_labels:
  "filter (fires ps pose) issueLabels =
     (if headForwardFires ps pose then [''Head forward''] else []) @
     (if shoulderTiltFires ps pose then [''Uneven shoulders''] else []) @
     (if spineCurveFires ps pose then [''Spine curved''] else []) @
     (if hunchFires ps pose then [''Shoulders hunched''] else [])"
  by (simp add: issueLabels_def fires_def)

lemma postureIssues_fires:
  assumes "24 < length pose" and "0 < posture_sensitivity ps"
  shows "postureIssues ps pose = Inr (filter (fires ps pose) issueLabels)"
  unfolding postureIssues_shape[OF assms(1)] fires_labels headForwardFires_def
    shoulderTiltFires_def spineCurveFires_def hunchFires_def exceeds_pos[OF assms(2)]
  by (rule refl)

lemma checkPosture_issues:
  assumes "enabled (posture (settings st))" and "postureIssues (posture (settings st)) pose = Inr issues"
  shows "checkPosture (Some pose) st =
     Inr (issues \<noteq> [], st\<lparr>currentPostureIssue := (if issues = [] then None else Some (join issues))\<rparr>)"
  using assms by (simp add: checkPosture_def andThen_def)

subsection \<open>Evaluating the example poses\<close>

lemma atan2_values:
  "atan2 (- (1/10)) (1/10) = - (pi / 4)"
  "atan2 (- (1/10)) 0 = - (pi / 2)"
  "atan2 (1/10) (1/10) = pi / 4"
  "atan2 0 (- (1/10)) = pi"
  by (simp_all add: atan2_def arctan_minus arctan_one)

lemma slouchPose_landmarks:
  "length (slouchPose v) = 33"
  "slouchPose v ! LEFT_EAR = \<lparr>lm_x = 6/10, lm_y = 4/10, lm_z = 0, lm_visibility = v\<rparr>"
  "slouchPose v ! RIGHT_EAR = lmk 0 0 0"
  "slouchPose v ! LEFT_SHOULDER = \<lparr>lm_x = 5/10, lm_y = 5/10, lm_z = 0, lm_visibility = 9/10\<rparr>"
  "slouchPose v ! RIGHT_SHOULDER = \<lparr>lm_x = 6/10, lm_y = 6/10, lm_z = 0, lm_visibility = 8/10\<rparr>"
  "slouchPose v ! LEFT_HIP = \<lparr>lm_x = 4/10, lm_y = 5/10, lm_z = 0, lm_visibility = 9/10\<rparr>"
  "slouchPose v ! RIGHT_HIP = lmk 0 0 0"
  by (simp_all add: slouchPose_def LEFT_EAR_def RIGHT_EAR_def LEFT_SHOULDER_def
      RIGHT_SHOULDER_def LEFT_HIP_def RIGHT_HIP_def)

lemma slouchPose_chosen:
  assumes "0 < v"
  shows "earOf (slouchPose v) = \<lparr>lm_x = 6/10, lm_y = 4/10, lm_z = 0, lm_visibility = v\<rparr>"
    and "shoulderOf (slouchPose v) = \<lparr>lm_x = 5/10, lm_y = 5/10, lm_z = 0, lm_visibility = 9/10\<rparr>"
    and "hipOf (slouchPose v) = \<lparr>lm_x = 4/10, lm_y = 5/10, lm_z = 0, lm_visibility = 9/10\<rparr>"
  using assms
  by (simp_all add: earOf_def shoulderOf_def hipOf_def moreVisible_def slouchPose_landmarks lmk_def)

lemma slouchPose_angles:
  assumes "0 < v"
  shows "calculateAngle (aboveOf (shoulderOf (slouchPose v))) (shoulderOf (slouchPose v))
           (earOf (slouchPose v)) = 45"
    and "\<bar>atan2 (lm_y (slouchPose v ! RIGHT_SHOULDER) - lm_y (slouchPose v ! LEFT_SHOULDER))
              (lm_x (slouchPose v ! RIGHT_SHOULDER) - lm_x (slouchPose v ! LEFT_SHOULDER)) * (180 / pi)\<bar> = 45"
    and "calculateAngle (earOf (slouchPose v)) (shoulderOf (slouchPose v)) (hipOf (slouchPose v)) = 135"
proof -
  have quarter: "\<bar>pi / 4 * (180 / pi)\<bar> = 45" by simp
  have five: "\<bar>(pi + pi / 4) * (180 / pi)\<bar> = 225" by (simp add: field_simps)
  show "calculateAngle (aboveOf (shoulderOf (slouchPose v))) (shoulderOf (slouchPose v))
           (earOf (slouchPose v)) = 45"
    using quarter
    by (simp add: slouchPose_chosen[OF assms] calculateAngle_def aboveOf_def atan2_values Let_def)
  show "\<bar>atan2 (lm_y (slouchPose v ! RIGHT_SHOULDER) - lm_y (slouchPose v ! LEFT_SHOULDER))
              (lm_x (slouchPose v ! RIGHT_SHOULDER) - lm_x (slouchPose v ! LEFT_SHOULDER)) * (180 / pi)\<bar> = 45"
    using quarter by (simp add: slouchPose_landmarks atan2_values)
  show "calculateAngle (earOf (slouchPose v)) (shoulderOf (slouchPose v)) (hipOf (slouchPose v)) = 135"
    using five
    by (simp add: slouchPose_chosen[OF assms] calculateAngle_def atan2_values Let_def)
qed

lemma postureOn_settings:
  "enabled (posture (settings postureOn))"
  "posture_sensitivity (posture (settings postureOn)) = 100"
  "headForwardThreshold (posture (settings postureOn)) = 15"
  "shoulderSlouchThreshold (posture (settings postureOn)) = 10"
  "spineAngleThreshold (posture (settings postureOn)) = 15"
  by (simp_all add: postureOn_def defaultSettings_def)

lemma slouchPose_fires:
  assumes "0 < v"
  shows "headForwardFires (posture (settings postureOn)) (slouchPose v) \<longleftrightarrow> v > 1/2"
    and "shoulderTiltFires (posture (settings postureOn)) (slouchPose v)"
    and "spineCurveFires (posture (settings postureOn)) (slouchPose v) \<longleftrightarrow> v > 1/2"
    and "hunchFires (posture (settings postureOn)) (slouchPose v)"
proof -
  note ang = slouchPose_angles[OF assms]
  show "headForwardFires (posture (settings postureOn)) (slouchPose v) \<longleftrightarrow> v > 1/2"
    unfolding headForwardFires_def ang(1)
    by (simp add: slouchPose_chosen[OF assms] visible_def postureOn_settings)
  show "shoulderTiltFires (posture (settings postureOn)) (slouchPose v)"
    unfolding shoulderTiltFires_def ang(2)
    by (simp add: slouchPose_landmarks visible_def postureOn_settings)
  show "spineCurveFires (posture (settings postureOn)) (slouchPose v) \<longleftrightarrow> v > 1/2"
    unfolding spineCurveFires_def ang(3)
    by (simp add: slouchPose_chosen[OF assms] visible_def postureOn_settings)
  show "hunchFires (posture (settings postureOn)) (slouchPose v)"
    unfolding hunchFires_def
    by (simp add: slouchPose_chosen[OF assms] visible_def postureOn_settings)
qed

lemma example_pose_issues:
  "postureIssues (posture (settings postureOn)) clearPose =
     Inr [''Head forward'', ''Uneven shoulders'', ''Spine curved'', ''Shoulders hunched'']"
  "postureIssues (posture (settings postureOn)) dimEarPose =
     Inr [''Uneven shoulders'', ''Shoulders hunched'']"
proof -
  have len: "24 < length (slouchPose v)" for v by (simp add: slouchPose_landmarks)
  have sens: "0 < posture_sensitivity (posture (settings postureOn))"
    by (simp add: postureOn_settings)
  have a: "(0::real) < 9/10" and b: "(0::real) < 4/10" by simp_all
  show "postureIssues (posture (settings postureOn)) clearPose =
     Inr [''Head forward'', ''Uneven shoulders'', ''Spine curved'', ''Shoulders hunched'']"
    unfolding clearPose_def postureIssues_fires[OF len sens] fires_labels
      slouchPose_fires(1,3)[OF a]
    using slouchPose_fires(2,4)[OF a] by simp
  show "postureIssues (posture (settings postureOn)) dimEarPose =
     Inr [''Uneven shoulders'', ''Shoulders hunched'']"
    unfolding dimEarPose_def postureIssues_fires[OF len sens] fires_labels
      slouchPose_fires(1,3)[OF b]
    using slouchPose_fires(2,4)[OF b] by simp
qed

section \<open>Claims on the posture check\<close>

text \<open>
  C6. \<open>checkPosture\<close> reports nothing when posture detection is disabled or there are no
  pose landmarks: it returns false and sets the current issue to null. Each of the four
  checks contributes its issue only if every landmark it uses has a visibility strictly
  above 0.5: the chosen ear and shoulder for head-forward, both shoulders for the
  shoulder tilt, the chosen ear, shoulder and hip for the spine, the chosen shoulder and
  hip for the hunch. So when the chosen ear's visibility is at most 0.5 (0.4, say), the
  head-forward and the spine check contribute nothing, whatever the angles are; and
  \<open>checkPosture\<close> returns true only if the chosen shoulder is visible.
\<close>

theorem posture_gating:
  "(poseLandmarks = None \<or> \<not> enabled (posture (settings st)) \<longrightarrow>
      checkPosture poseLandmarks st = Inr (False, st\<lparr>currentPostureIssue := None\<rparr>)) \<and>
   (postureIssues ps pose = Inr issues \<longrightarrow>
      (''Head forward'' \<in> set issues \<longrightarrow> visible (earOf pose) \<and> visible (shoulderOf pose)) \<and>
      (''Uneven shoulders'' \<in> set issues \<longrightarrow>
         visible (pose ! LEFT_SHOULDER) \<and> visible (pose ! RIGHT_SHOULDER)) \<and>
      (''Spine curved'' \<in> set issues \<longrightarrow>
         visible (earOf pose) \<and> visible (shoulderOf pose) \<and> visible (hipOf pose)) \<and>
      (''Shoulders hunched'' \<in> set issues \<longrightarrow> visible (shoulderOf pose) \<and> visible (hipOf pose)) \<and>
      (lm_visibility (earOf pose) \<le> 0.5 \<longrightarrow>
         ''Head forward'' \<notin> set issues \<and> ''Spine curved'' \<notin> set issues)) \<and>
   (checkPosture (Some pose) st = Inr (True, st') \<longrightarrow> visible (shoulderOf pose))"
proof (intro conjI impI)
  assume "poseLandmarks = None \<or> \<not> enabled (posture (settings st))"
  then show "checkPosture poseLandmarks st = Inr (False, st\<lparr>currentPostureIssue := None\<rparr>)"
    by (auto simp: checkPosture_def split: option.splits)
next
  assume r: "postureIssues ps pose = Inr issues"
  note shape = postureIssues_shape[OF postureIssues_Inr[OF r], of ps]
  from r shape show "''Head forward'' \<in> set issues \<Longrightarrow> visible (earOf pose)"
    and "''Head forward'' \<in> set issues \<Longrightarrow> visible (shoulderOf pose)"
    and "''Uneven shoulders'' \<in> set issues \<Longrightarrow> visible (pose ! LEFT_SHOULDER)"
    and "''Uneven shoulders'' \<in> set issues \<Longrightarrow> visible (pose ! RIGHT_SHOULDER)"
    and "''Spine curved'' \<in> set issues \<Longrightarrow> visible (earOf pose)"
    and "''Spine curved'' \<in> set issues \<Longrightarrow> visible (shoulderOf pose)"
    and "''Spine curved'' \<in> set issues \<Longrightarrow> visible (hipOf pose)"
    and "''Shoulders hunched'' \<in> set issues \<Longrightarrow> visible (shoulderOf pose)"
    and "''Shoulders hunched'' \<in> set issues \<Longrightarrow> visible (hipOf pose)"
    by (auto split: if_splits)
  from r shape show "lm_visibility (earOf pose) \<le> 0.5 \<Longrightarrow> ''Head forward'' \<notin> set issues"
    and "lm_visibility (earOf pose) \<le> 0.5 \<Longrightarrow> ''Spine curved'' \<notin> set issues"
    by (auto simp: visible_def split: if_splits)
next
  assume t: "checkPosture (Some pose) st = Inr (True, st')"
  then obtain issues where r: "postureIssues (posture (settings st)) pose = Inr issues"
    and ne: "issues \<noteq> []"
    by (auto simp: checkPosture_def andThen_def split: if_splits sum.splits)
  have both: "visible (shoulderOf pose)"
    if "visible (pose ! LEFT_SHOULDER)" "visible (pose ! RIGHT_SHOULDER)"
    using that by (simp add: shoulderOf_def moreVisible_def)
  from r ne postureIssues_shape[OF postureIssues_Inr[OF r], of "posture (settings st)"]
  show "visible (shoulderOf pose)"
    using both by (auto split: if_splits)
qed

text \<open>
  With the better ear at visibility 0.4 the pose that otherwise raises all four issues
  raises only the two that do not use the ear.
\<close>

theorem posture_gating_witness:
  "checkPosture None postureOn = Inr (False, postureOn\<lparr>currentPostureIssue := None\<rparr>) \<and>
   postureIssues (posture (settings postureOn)) dimEarPose =
     Inr [''Uneven shoulders'', ''Shoulders hunched''] \<and>
   lm_visibility (earOf dimEarPose) = 4/10 \<and>
   ''Head forward'' \<notin> set [''Uneven shoulders'', ''Shoulders hunched''] \<and>
   ''Spine curved'' \<notin> set [''Uneven shoulders'', ''Shoulders hunched''] \<and>
   visible (shoulderOf dimEarPose) \<and> visible (hipOf dimEarPose)"
proof -
  have pos: "(0::real) < 4/10" by simp
  have ear: "lm_visibility (earOf dimEarPose) = 4/10"
    unfolding dimEarPose_def slouchPose_chosen[OF pos] by simp
  show ?thesis
    using posture_gating[of None postureOn "posture (settings postureOn)" dimEarPose
            "[''Uneven shoulders'', ''Shoulders hunched'']"]
          example_pose_issues(2) ear
    by simp
qed

text \<open>
  C7. On a pose with all its landmarks, with a positive sensitivity, the issue list of
  \<open>checkPosture\<close> holds exactly the labels whose check fires, in the fixed order head
  forward, uneven shoulders, spine curved, shoulders hunched: whether a label is in the
  list depends on its own check alone, no check ends the function early. When all four
  fire the list has length 4. With posture detection enabled \<open>checkPosture\<close> returns
  true if and only if the list is not empty, and records the list joined by commas.
\<close>

theorem posture_issue_list:
  assumes "24 < length pose"
    and "0 < posture_sensitivity (posture (settings st))"
    and "enabled (posture (settings st))"
  shows "\<exists>issues.
     postureIssues (posture (settings st)) pose = Inr issues \<and>
     issues = filter (fires (posture (settings st)) pose)
                [''Head forward'', ''Uneven shoulders'', ''Spine curved'', ''Shoulders hunched''] \<and>
     checkPosture (Some pose) st =
       Inr (issues \<noteq> [],
            st\<lparr>currentPostureIssue := (if issues = [] then None else Some (join issues))\<rparr>) \<and>
     (headForwardFires (posture (settings st)) pose \<and> shoulderTiltFires (posture (settings st)) pose \<and>
      spineCurveFires (posture (settings st)) pose \<and> hunchFires (posture (settings st)) pose \<longrightarrow>
        issues = [''Head forward'', ''Uneven shoulders'', ''Spine curved'', ''Shoulders hunched''] \<and>
        length issues = 4)"
proof -
  let ?issues = "filter (fires (posture (settings st)) pose) issueLabels"
  have r: "postureIssues (posture (settings st)) pose = Inr ?issues"
    using assms(1,2) by (rule postureIssues_fires)
  have c: "checkPosture (Some pose) st =
       Inr (?issues \<noteq> [],
            st\<lparr>currentPostureIssue := (if ?issues = [] then None else Some (join ?issues))\<rparr>)"
    using assms(3) r by (rule checkPosture_issues)
  have a: "headForwardFires (posture (settings st)) pose \<and> shoulderTiltFires (posture (settings st)) pose \<and>
      spineCurveFires (posture (settings st)) pose \<and> hunchFires (posture (settings st)) pose \<longrightarrow>
        ?issues = issueLabels \<and> length ?issues = 4"
    by (simp add: fires_labels) (simp add: issueLabels_def)
  show ?thesis
    using r c a unfolding issueLabels_def by blast
qed

text \<open>The pose in which all four checks fire.\<close>

theorem posture_issue_list_witness:
  "24 < length clearPose \<and>
   0 < posture_sensitivity (posture (settings postureOn)) \<and>
   enabled (posture (settings postureOn)) \<and>
   postureIssues (posture (settings postureOn)) clearPose =
     Inr [''Head forward'', ''Uneven shoulders'', ''Spine curved'', ''Shoulders hunched''] \<and>
   length [''Head forward'', ''Uneven shoulders'', ''Spine curved'', ''Shoulders hunched''] = 4 \<and>
   checkPosture (Some clearPose) postureOn =
     Inr (True, postureOn\<lparr>currentPostureIssue :=
       Some ''Head forward, Uneven shoulders, Spine curved, Shoulders hunched''\<rparr>)"
proof -
  have len: "24 < length clearPose" by (simp add: clearPose_def slouchPose_landmarks)
  have sens: "0 < posture_sensitivity (posture (settings postureOn))"
    by (simp add: postureOn_settings)
  have on: "enabled (posture (settings postureOn))" by (rule postureOn_settings)
  from posture_issue_list[OF len sens on] obtain issues where
    r: "postureIssues (posture (settings postureOn)) clearPose = Inr issues"
    and c: "checkPosture (Some clearPose) postureOn =
       Inr (issues \<noteq> [],
            postureOn\<lparr>currentPostureIssue := (if issues = [] then None else Some (join issues))\<rparr>)"
    by blast
  from r example_pose_issues(1)
  have "issues = [''Head forward'', ''Uneven shoulders'', ''Spine curved'', ''Shoulders hunched'']"
    by simp
  with c have "checkPosture (Some clearPose) postureOn =
     Inr (True, postureOn\<lparr>currentPostureIssue :=
       Some ''Head forward, Uneven shoulders, Spine curved, Shoulders hunched''\<rparr>)"
    by simp
  with len sens on example_pose_issues(1) show ?thesis by simp
qed

section \<open>Lemmas on the alert handling\<close>

lemma count_list_app: "count_list (xs @ ys) x = count_list xs x + count_list ys x"
  by (induction xs) auto

lemma sinkRequests_no_alert: "count_list (sinkRequests cfg frequency duration) (Alert a) = 0"
  by (simp add: sinkRequests_def)

lemma alerts_emit:
  "alerts a (st\<lparr>emitted := emitted st @ Alert b # sinkRequests cfg frequency duration\<rparr>) =
     alerts a st + (if a = b then 1 else 0)"
  by (simp add: alerts_def count_list_app sinkRequests_no_alert)


subsection \<open>Stopping and starting a repeat timer\<close>

lemma stopContinuousBeep_fields:
  "continuousBeepTimer (stopContinuousBeep st) = None"
  "emitted (stopContinuousBeep st) = emitted st"
  "isTouching (stopContinuousBeep st) = isTouching st"
  "wasTouching (stopContinuousBeep st) = wasTouching st"
  "touchCount (stopContinuousBeep st) = touchCount st"
  "lastTouchTime (stopContinuousBeep st) = lastTouchTime st"
  "postureBeepTimer (stopContinuousBeep st) = postureBeepTimer st"
  "isBadPosture (stopContinuousBeep st) = isBadPosture st"
  "wasBadPosture (stopContinuousBeep st) = wasBadPosture st"
  "settings (stopContinuousBeep st) = settings st"
  "nextTimerId (stopContinuousBeep st) = nextTimerId st"
  by (simp_all add: stopContinuousBeep_def clearInterval_def split: option.splits)

lemma stopPostureContinuousAlert_fields:
  "postureBeepTimer (stopPostureContinuousAlert st) = None"
  "emitted (stopPostureContinuousAlert st) = emitted st"
  "isBadPosture (stopPostureContinuousAlert st) = isBadPosture st"
  "wasBadPosture (stopPostureContinuousAlert st) = wasBadPosture st"
  "postureAlertCount (stopPostureContinuousAlert st) = postureAlertCount st"
  "lastPostureAlertTime (stopPostureContinuousAlert st) = lastPostureAlertTime st"
  "continuousBeepTimer (stopPostureContinuousAlert st) = continuousBeepTimer st"
  "isTouching (stopPostureContinuousAlert st) = isTouching st"
  "wasTouching (stopPostureContinuousAlert st) = wasTouching st"
  "touchCount (stopPostureContinuousAlert st) = touchCount st"
  "settings (stopPostureContinuousAlert st) = settings st"
  "nextTimerId (stopPostureContinuousAlert st) = nextTimerId st"
  by (simp_all add: stopPostureContinuousAlert_def clearInterval_def split: option.splits)

lemma alerts_stop:
  "alerts a (stopContinuousBeep st) = alerts a st"
  "alerts a (stopPostureContinuousAlert st) = alerts a st"
  by (simp_all add: alerts_def stopContinuousBeep_fields stopPostureContinuousAlert_fields)

lemma stop_clears_handle:
  "continuousBeepTimer st = Some h \<Longrightarrow> h \<notin> liveHandles (stopContinuousBeep st)"
  "postureBeepTimer st = Some h \<Longrightarrow> h \<notin> liveHandles (stopPostureContinuousAlert st)"
  by (auto simp: stopContinuousBeep_def stopPostureContinuousAlert_def clearInterval_def
      liveHandles_def)

lemma stop_keeps_other_handles:
  "continuousBeepTimer st \<noteq> Some h \<Longrightarrow> h \<in> liveHandles (stopContinuousBeep st) \<longleftrightarrow> h \<in> liveHandles st"
  "postureBeepTimer st \<noteq> Some h \<Longrightarrow>
     h \<in> liveHandles (stopPostureContinuousAlert st) \<longleftrightarrow> h \<in> liveHandles st"
  by (auto simp: stopContinuousBeep_def stopPostureContinuousAlert_def clearInterval_def
      liveHandles_def split: option.splits)

lemma startContinuousBeep_fields:
  "continuousBeepTimer (startContinuousBeep st) = Some (nextTimerId st)"
  "nextTimerId st \<in> liveHandles (startContinuousBeep st)"
  "emitted (startContinuousBeep st) = emitted st"
  "isTouching (startContinuousBeep st) = isTouching st"
  "wasTouching (startContinuousBeep st) = wasTouching st"
  "touchCount (startContinuousBeep st) = touchCount st"
  "lastTouchTime (startContinuousBeep st) = lastTouchTime st"
  by (simp_all add: startContinuousBeep_def setInterval_def Let_def stopContinuousBeep_fields
      liveHandles_def)

lemma startPostureContinuousAlert_fields:
  "postureBeepTimer (startPostureContinuousAlert st) = Some (nextTimerId st)"
  "nextTimerId st \<in> liveHandles (startPostureContinuousAlert st)"
  "emitted (startPostureContinuousAlert st) = emitted st"
  "isBadPosture (startPostureContinuousAlert st) = isBadPosture st"
  "wasBadPosture (startPostureContinuousAlert st) = wasBadPosture st"
  "postureAlertCount (startPostureContinuousAlert st) = postureAlertCount st"
  "lastPostureAlertTime (startPostureContinuousAlert st) = lastPostureAlertTime st"
  by (simp_all add: startPostureContinuousAlert_def setInterval_def Let_def
      stopPostureContinuousAlert_fields liveHandles_def)

subsection \<open>Frames\<close>

lemma handleTouchState_rising:
  assumes "\<not> isTouching st"
  shows "handleTouchState True faceVisible now st =
     startContinuousBeep (triggerAlert now (st\<lparr>wasTouching := False, isTouching := True\<rparr>))"
  using assms by (simp add: handleTouchState_def Let_def)

lemma handleTouchState_falling:
  assumes "isTouching st"
  shows "handleTouchState False faceVisible now st =
     stopContinuousBeep (st\<lparr>wasTouching := True, isTouching := False\<rparr>)"
  using assms by (simp add: handleTouchState_def Let_def)

lemma handleTouchState_level:
  assumes "isTouching st = touchDetected"
  shows "handleTouchState touchDetected faceVisible now st = st\<lparr>wasTouching := touchDetected\<rparr>"
  using assms by (cases touchDetected) (simp_all add: handleTouchState_def Let_def)

lemma handlePostureState_rising:
  assumes "\<not> isBadPosture st"
  shows "handlePostureState True now st =
     startPostureContinuousAlert
       (triggerPostureAlert now (st\<lparr>wasBadPosture := False, isBadPosture := True\<rparr>))"
  using assms by (simp add: handlePostureState_def Let_def)

lemma handlePostureState_falling:
  assumes "isBadPosture st"
  shows "handlePostureState False now st =
     stopPostureContinuousAlert (st\<lparr>wasBadPosture := True, isBadPosture := False\<rparr>)"
  using assms by (simp add: handlePostureState_def Let_def)

lemma touch_onset:
  assumes "\<not> isTouching st"
  shows "touchCount (handleTouchState True faceVisible now st) = touchCount st + 1"
    and "lastTouchTime (handleTouchState True faceVisible now st) = Some now"
    and "emitted (handleTouchState True faceVisible now st) =
           emitted st @ Alert TouchOnset # sinkRequests (settings st) 440 150"
    and "isTouching (handleTouchState True faceVisible now st)"
    and "continuousBeepTimer (handleTouchState True faceVisible now st) = Some (nextTimerId st)"
  unfolding handleTouchState_rising[OF assms]
  by (simp_all add: startContinuousBeep_fields triggerAlert_def)

lemma posture_onset:
  assumes "\<not> isBadPosture st"
  shows "postureAlertCount (handlePostureState True now st) = postureAlertCount st + 1"
    and "lastPostureAlertTime (handlePostureState True now st) = Some now"
    and "emitted (handlePostureState True now st) =
           emitted st @ Alert PostureOnset # sinkRequests (settings st) 330 200"
    and "isBadPosture (handlePostureState True now st)"
    and "postureBeepTimer (handlePostureState True now st) = Some (nextTimerId st)"
  unfolding handlePostureState_rising[OF assms]
  by (simp_all add: startPostureContinuousAlert_fields triggerPostureAlert_def)

lemma touch_onset_alerts:
  assumes "\<not> isTouching st"
  shows "alerts a (handleTouchState True faceVisible now st) =
           alerts a st + (if a = TouchOnset then 1 else 0)"
  unfolding alerts_def touch_onset(3)[OF assms]
  by (simp add: count_list_app sinkRequests_no_alert)

lemma posture_onset_alerts:
  assumes "\<not> isBadPosture st"
  shows "alerts a (handlePostureState True now st) =
           alerts a st + (if a = PostureOnset then 1 else 0)"
  unfolding alerts_def posture_onset(3)[OF assms]
  by (simp add: count_list_app sinkRequests_no_alert)

lemma touch_release:
  assumes "isTouching st"
  shows "touchIdle (handleTouchState False faceVisible now st)"
    and "emitted (handleTouchState False faceVisible now st) = emitted st"
  unfolding handleTouchState_falling[OF assms]
  by (simp_all add: touchIdle_def stopContinuousBeep_fields)

lemma posture_release:
  assumes "isBadPosture st"
  shows "postureIdle (handlePostureState False now st)"
    and "emitted (handlePostureState False now st) = emitted st"
  unfolding handlePostureState_falling[OF assms]
  by (simp_all add: postureIdle_def stopPostureContinuousAlert_fields)

subsection \<open>Ticks\<close>

lemma tick_active:
  "isTouching st \<Longrightarrow> continuousBeepTick st =
     st\<lparr>emitted := emitted st @ Alert TouchContinuous # sinkRequests (settings st) 440 150\<rparr>"
  "isBadPosture st \<Longrightarrow> postureBeepTick st =
     st\<lparr>emitted := emitted st @ Alert PostureContinuous # sinkRequests (settings st) 330 200\<rparr>"
  by (simp_all add: continuousBeepTick_def postureBeepTick_def triggerContinuousAlert_def
      triggerPostureContinuousAlert_def)

lemma tick_inactive:
  "\<not> isTouching st \<Longrightarrow> continuousBeepTick st = stopContinuousBeep st"
  "\<not> isBadPosture st \<Longrightarrow> postureBeepTick st = stopPostureContinuousAlert st"
  by (simp_all add: continuousBeepTick_def postureBeepTick_def)

lemma postureBeepTick_touch:
  "isTouching (postureBeepTick st) = isTouching st \<and>
   continuousBeepTimer (postureBeepTick st) = continuousBeepTimer st \<and>
   alerts TouchOnset (postureBeepTick st) = alerts TouchOnset st \<and>
   alerts TouchContinuous (postureBeepTick st) = alerts TouchContinuous st"
  by (cases "isBadPosture st")
     (simp_all add: tick_active tick_inactive stopPostureContinuousAlert_fields alerts_emit
        alerts_stop)

lemma continuousBeepTick_posture:
  "isBadPosture (continuousBeepTick st) = isBadPosture st \<and>
   postureBeepTimer (continuousBeepTick st) = postureBeepTimer st \<and>
   alerts PostureOnset (continuousBeepTick st) = alerts PostureOnset st \<and>
   alerts PostureContinuous (continuousBeepTick st) = alerts PostureContinuous st"
  by (cases "isTouching st")
     (simp_all add: tick_active tick_inactive stopContinuousBeep_fields alerts_emit alerts_stop)

lemma fire_cases:
  "fire h st = st \<or> fire h st = continuousBeepTick st \<or> fire h st = postureBeepTick st"
  by (simp add: fire_def split: option.split prod.split callback.split)





lemma run_Cons: "run (e # evs) st = run evs (step e st)"
  by (simp add: run_def)



subsection \<open>One step of the scheduler\<close>

lemma handlePostureState_touch:
  "isTouching (handlePostureState b now st) = isTouching st \<and>
   continuousBeepTimer (handlePostureState b now st) = continuousBeepTimer st \<and>
   alerts TouchOnset (handlePostureState b now st) = alerts TouchOnset st \<and>
   alerts TouchContinuous (handlePostureState b now st) = alerts TouchContinuous st"
  by (simp add: handlePostureState_def Let_def startPostureContinuousAlert_def setInterval_def
      stopPostureContinuousAlert_fields triggerPostureAlert_def alerts_def count_list_app
      sinkRequests_no_alert split: prod.splits)

lemma handleTouchState_posture:
  "isBadPosture (handleTouchState b fv now st) = isBadPosture st \<and>
   postureBeepTimer (handleTouchState b fv now st) = postureBeepTimer st \<and>
   alerts PostureOnset (handleTouchState b fv now st) = alerts PostureOnset st \<and>
   alerts PostureContinuous (handleTouchState b fv now st) = alerts PostureContinuous st"
  by (simp add: handleTouchState_def Let_def startContinuousBeep_def setInterval_def
      stopContinuousBeep_fields triggerAlert_def alerts_def count_list_app
      sinkRequests_no_alert split: prod.splits)

lemma continuousBeepTick_touch:
  "isTouching (continuousBeepTick st) = isTouching st \<and>
   alerts TouchOnset (continuousBeepTick st) = alerts TouchOnset st"
  by (cases "isTouching st")
     (simp_all add: tick_active tick_inactive stopContinuousBeep_fields alerts_emit alerts_stop)

lemma postureBeepTick_posture:
  "isBadPosture (postureBeepTick st) = isBadPosture st \<and>
   alerts PostureOnset (postureBeepTick st) = alerts PostureOnset st"
  by (cases "isBadPosture st")
     (simp_all add: tick_active tick_inactive stopPostureContinuousAlert_fields alerts_emit
        alerts_stop)

lemma fire_flags:
  "isTouching (fire h st) = isTouching st \<and> alerts TouchOnset (fire h st) = alerts TouchOnset st \<and>
   isBadPosture (fire h st) = isBadPosture st \<and>
   alerts PostureOnset (fire h st) = alerts PostureOnset st"
  using fire_cases[of h st]
proof (elim disjE)
  assume f: "fire h st = st"
  show ?thesis unfolding f by simp
next
  assume f: "fire h st = continuousBeepTick st"
  show ?thesis unfolding f by (simp add: continuousBeepTick_touch continuousBeepTick_posture)
next
  assume f: "fire h st = postureBeepTick st"
  show ?thesis unfolding f by (simp add: postureBeepTick_touch postureBeepTick_posture)
qed

lemma touch_frame_onsets:
  "isTouching (handleTouchState b fv now st) = b \<and>
   alerts TouchOnset (handleTouchState b fv now st) =
     alerts TouchOnset st + (if b \<and> \<not> isTouching st then 1 else 0)"
proof (cases "isTouching st = b")
  case True
  then show ?thesis by (auto simp: handleTouchState_level alerts_def)
next
  case False
  show ?thesis
  proof (cases b)
    case True
    with False have n: "\<not> isTouching st" by simp
    show ?thesis using True n by (simp add: touch_onset(4)[OF n] touch_onset_alerts[OF n])
  next
    case f: False
    with False have t: "isTouching st" by simp
    show ?thesis
      using f touch_release[OF t, of fv now] by (simp add: touchIdle_def alerts_def)
  qed
qed

lemma posture_frame_onsets:
  "isBadPosture (handlePostureState b now st) = b \<and>
   alerts PostureOnset (handlePostureState b now st) =
     alerts PostureOnset st + (if b \<and> \<not> isBadPosture st then 1 else 0)"
proof (cases "isBadPosture st = b")
  case True
  then show ?thesis
    by (cases b) (simp_all add: handlePostureState_def Let_def alerts_def)
next
  case False
  show ?thesis
  proof (cases b)
    case True
    with False have n: "\<not> isBadPosture st" by simp
    show ?thesis using True n by (simp add: posture_onset(4)[OF n] posture_onset_alerts[OF n])
  next
    case f: False
    with False have t: "isBadPosture st" by simp
    show ?thesis
      using f posture_release[OF t, of now] by (simp add: postureIdle_def alerts_def)
  qed
qed

lemma onsets_are_edges:
  "alerts TouchOnset (run evs st) = alerts TouchOnset st + touchEdges (isTouching st) evs \<and>
   alerts PostureOnset (run evs st) = alerts PostureOnset st + postureEdges (isBadPosture st) evs"
proof (induction evs arbitrary: st)
  case Nil
  show ?case by (simp add: run_def)
next
  case (Cons e evs)
  show ?case
  proof (cases e)
    case (TouchFrame b fv now)
    show ?thesis
      unfolding TouchFrame run_Cons step.simps
      using Cons.IH[of "handleTouchState b fv now st"] touch_frame_onsets[of b fv now st]
        handleTouchState_posture[of b fv now st]
      by simp
  next
    case (PostureFrame b now)
    show ?thesis
      unfolding PostureFrame run_Cons step.simps
      using Cons.IH[of "handlePostureState b now st"] posture_frame_onsets[of b now st]
        handlePostureState_touch[of b now st]
      by simp
  next
    case (Fire h)
    show ?thesis
      unfolding Fire run_Cons step.simps
      using Cons.IH[of "fire h st"] fire_flags[of h st] by simp
  qed
qed

subsection \<open>While the signal stays true\<close>





lemma onset_starts_timer:
  "\<not> isTouching st \<Longrightarrow>
     (nextTimerId st, TouchRepeat, alertCooldownMs (settings st))
       \<in> set (intervals (handleTouchState True fv now st))"
  "\<not> isBadPosture st \<Longrightarrow>
     (nextTimerId st, PostureRepeat, posture_alertCooldownMs (posture (settings st)))
       \<in> set (intervals (handlePostureState True now st))"
  by (simp_all add: handleTouchState_rising handlePostureState_rising startContinuousBeep_def
      startPostureContinuousAlert_def setInterval_def Let_def stopContinuousBeep_fields
      stopPostureContinuousAlert_fields triggerAlert_def triggerPostureAlert_def)










subsection \<open>Handles stay fresh\<close>

lemma handlesFresh_intervals:
  "set (intervals st') \<subseteq> set (intervals st) \<Longrightarrow> nextTimerId st \<le> nextTimerId st' \<Longrightarrow>
     handlesFresh st \<Longrightarrow> handlesFresh st'"
  by (fastforce simp: handlesFresh_def list_all_iff)







subsection \<open>The cooldown of \<open>src/detect.js\<close>\<close>

lemma detect_js_onset:
  assumes "\<not> isTouching st" and "\<not> alertCooldown st"
  shows "handleTouchState_detect_js True fv now st =
     st\<lparr>wasTouching := False, isTouching := True, touchCount := touchCount st + 1,
        lastTouchTime := Some now,
        emitted := emitted st @ Alert TouchOnset # sinkRequests (settings st) 440 150,
        alertCooldown := True,
        timeouts := timeouts st @ [(nextTimerId st, alertCooldownMs (settings st))],
        nextTimerId := Suc (nextTimerId st)\<rparr>"
  using assms
  by (simp add: handleTouchState_detect_js_def triggerAlert_detect_js_def setTimeout_def Let_def)

lemma detect_js_quiet:
  assumes "touchDetected \<longrightarrow> isTouching st \<or> alertCooldown st"
  shows "handleTouchState_detect_js touchDetected fv now st =
     st\<lparr>wasTouching := isTouching st, isTouching := touchDetected\<rparr>"
  using assms by (auto simp: handleTouchState_detect_js_def Let_def)

lemma detect_js_flag_stays:
  "alertCooldown st \<Longrightarrow> alertCooldown (handleTouchState_detect_js touchDetected fv now st)"
  by (simp add: detect_js_quiet)

lemma fireTimeout_pending:
  assumes "h \<in> pendingTimeouts st"
  shows "\<not> alertCooldown (fireTimeout h st)"
    and "h \<notin> pendingTimeouts (fireTimeout h st)"
    and "touchCount (fireTimeout h st) = touchCount st"
    and "emitted (fireTimeout h st) = emitted st"
    and "isTouching (fireTimeout h st) = isTouching st"
    and "lastTouchTime (fireTimeout h st) = lastTouchTime st"
proof -
  from assms obtain delay where "map_of (timeouts st) h = Some delay"
    by (cases "map_of (timeouts st) h")
       (auto simp: pendingTimeouts_def map_of_eq_None_iff)
  then have f: "fireTimeout h st =
      cooldownTimeout (st\<lparr>timeouts := filter (\<lambda>entry. fst entry \<noteq> h) (timeouts st)\<rparr>)"
    by (simp add: fireTimeout_def)
  show "\<not> alertCooldown (fireTimeout h st)"
    and "h \<notin> pendingTimeouts (fireTimeout h st)"
    and "touchCount (fireTimeout h st) = touchCount st"
    and "emitted (fireTimeout h st) = emitted st"
    and "isTouching (fireTimeout h st) = isTouching st"
    and "lastTouchTime (fireTimeout h st) = lastTouchTime st"
    unfolding f by (auto simp: cooldownTimeout_def pendingTimeouts_def)
qed

lemma fireTimeout_gone: "h \<notin> pendingTimeouts st \<Longrightarrow> fireTimeout h st = st"
  by (simp add: fireTimeout_def pendingTimeouts_def map_of_eq_None_iff[THEN iffD2])

subsection \<open>Stopping the monitor, switching posture detection off\<close>

lemma stopMonitoring_fields:
  "continuousBeepTimer (stopMonitoring st) = None"
  "postureBeepTimer (stopMonitoring st) = None"
  "\<not> isBadPosture (stopMonitoring st)"
  "\<not> wasBadPosture (stopMonitoring st)"
  "isTouching (stopMonitoring st) = isTouching st"
  "wasTouching (stopMonitoring st) = wasTouching st"
  "touchCount (stopMonitoring st) = touchCount st"
  "emitted (stopMonitoring st) = emitted st"
  by (simp_all add: stopMonitoring_def Let_def stopContinuousBeep_fields
      stopPostureContinuousAlert_fields)

lemma stopMonitoring_handles:
  "continuousBeepTimer st = Some h \<or> postureBeepTimer st = Some h \<Longrightarrow>
     h \<notin> liveHandles (stopMonitoring st)"
proof -
  have sub: "liveHandles (stopContinuousBeep s) \<subseteq> liveHandles s"
            "liveHandles (stopPostureContinuousAlert s) \<subseteq> liveHandles s" for s
    by (auto simp: stopContinuousBeep_def stopPostureContinuousAlert_def clearInterval_def
        liveHandles_def split: option.splits)
  let ?s2 = "st\<lparr>isRunning := False, animationId := None\<rparr>"
  have live: "liveHandles (stopMonitoring st) =
      liveHandles (stopPostureContinuousAlert (stopContinuousBeep ?s2))"
    by (simp add: stopMonitoring_def Let_def liveHandles_def)
  assume "continuousBeepTimer st = Some h \<or> postureBeepTimer st = Some h"
  then show ?thesis
  proof
    assume "continuousBeepTimer st = Some h"
    then have "h \<notin> liveHandles (stopContinuousBeep ?s2)"
      by (intro stop_clears_handle(1)) simp
    with sub(2) show ?thesis unfolding live by blast
  next
    assume "postureBeepTimer st = Some h"
    then have "postureBeepTimer (stopContinuousBeep ?s2) = Some h"
      by (simp add: stopContinuousBeep_fields)
    then show ?thesis unfolding live by (rule stop_clears_handle(2))
  qed
qed

lemma postureToggleChange_off:
  "postureBeepTimer (postureToggleChange False st) = None"
  "\<not> isBadPosture (postureToggleChange False st)"
  "\<not> wasBadPosture (postureToggleChange False st)"
  "continuousBeepTimer (postureToggleChange False st) = continuousBeepTimer st"
  "isTouching (postureToggleChange False st) = isTouching st"
  "wasTouching (postureToggleChange False st) = wasTouching st"
  "\<not> enabled (posture (settings (postureToggleChange False st)))"
  by (simp_all add: postureToggleChange_def Let_def stopPostureContinuousAlert_fields)

lemma postureToggleChange_handles:
  "postureBeepTimer st = Some h \<Longrightarrow> h \<notin> liveHandles (postureToggleChange False st)"
  "postureBeepTimer st \<noteq> Some h \<Longrightarrow>
     h \<in> liveHandles (postureToggleChange False st) \<longleftrightarrow> h \<in> liveHandles st"
proof -
  let ?s1 = "st\<lparr>settings := (settings st)\<lparr>posture := (posture (settings st))\<lparr>enabled := False\<rparr>\<rparr>\<rparr>"
  have live: "liveHandles (postureToggleChange False st) = liveHandles (stopPostureContinuousAlert ?s1)"
    by (simp add: postureToggleChange_def Let_def liveHandles_def)
  have same: "liveHandles ?s1 = liveHandles st" by (simp add: liveHandles_def)
  show "postureBeepTimer st = Some h \<Longrightarrow> h \<notin> liveHandles (postureToggleChange False st)"
    unfolding live by (rule stop_clears_handle(2)) simp
  show "postureBeepTimer st \<noteq> Some h \<Longrightarrow>
     h \<in> liveHandles (postureToggleChange False st) \<longleftrightarrow> h \<in> liveHandles st"
    unfolding live using stop_keeps_other_handles(2)[of ?s1 h] same by simp
qed

subsection \<open>Evaluating the example states\<close>

lemma state100_idle:
  "\<not> isTouching state100" "\<not> isBadPosture state100" "nextTimerId state100 = 0"
  "touchCount state100 = 0" "postureAlertCount state100 = 0" "emitted state100 = []"
  "sinkRequests (settings state100) f d = [Beep f d, Flash]"
  by (simp_all add: state100_def initialState_def defaultSettings_def sinkRequests_def)

lemma touchingState_fields:
  "isTouching touchingState" "\<not> wasTouching touchingState"
  "isBadPosture touchingState" "\<not> wasBadPosture touchingState"
  "continuousBeepTimer touchingState = Some 0" "postureBeepTimer touchingState = Some 1"
  "liveHandles touchingState = {0, 1}"
  "touchCount touchingState = 1"
  "alerts TouchOnset touchingState = 1" "alerts TouchContinuous touchingState = 0"
proof -
  have eq: "touchingState =
     state100\<lparr>touchCount := 1, lastTouchTime := Some 1000, postureAlertCount := 1,
       lastPostureAlertTime := Some 1000, isTouching := True, continuousBeepTimer := Some 0,
       isBadPosture := True, postureBeepTimer := Some 1,
       intervals := [(0, TouchRepeat, 2000), (1, PostureRepeat, 3000)], nextTimerId := 2,
       emitted := [Alert TouchOnset, Beep 440 150, Flash, Alert PostureOnset, Beep 330 200, Flash]\<rparr>"
    by (simp add: touchingState_def handleTouchState_def handlePostureState_def Let_def
        startContinuousBeep_def startPostureContinuousAlert_def stopContinuousBeep_def
        stopPostureContinuousAlert_def setInterval_def triggerAlert_def triggerPostureAlert_def
        sinkRequests_def state100_def initialState_def defaultSettings_def)
  show "isTouching touchingState" "\<not> wasTouching touchingState"
    "isBadPosture touchingState" "\<not> wasBadPosture touchingState"
    "continuousBeepTimer touchingState = Some 0" "postureBeepTimer touchingState = Some 1"
    "liveHandles touchingState = {0, 1}"
    "touchCount touchingState = 1"
    "alerts TouchOnset touchingState = 1" "alerts TouchContinuous touchingState = 0"
    unfolding eq
    by (simp_all add: liveHandles_def alerts_def state100_def initialState_def)
qed

lemma coolingState_fields:
  "\<not> isTouching coolingState" "alertCooldown coolingState" "touchCount coolingState = 1"
  "\<not> isBadPosture coolingState" "postureAlertCount coolingState = 0"
  "lastTouchTime coolingState = Some 1000"
  "emitted coolingState = [Alert TouchOnset, Beep 440 150, Flash]"
  "timeouts coolingState = [(0, 3000)]"
  "nextTimerId coolingState = 1"
  by (simp_all add: coolingState_def detectJsState_def handleTouchState_detect_js_def
      triggerAlert_detect_js_def setTimeout_def Let_def sinkRequests_def state100_def
      initialState_def defaultSettings_def)

section \<open>Claims on the alert handling\<close>

text \<open>
  C3, as claimed, fails on \<open>src/detect.js\<close>: one frame after a touch has ended, with the
  cooldown of its alert still running, a new touch is a rising edge of the detection
  boolean, and \<open>handleTouchState\<close> raises no alert for it: the counter, the time of the
  last touch and the effects emitted stay as they were.
\<close>

theorem onset_suppressed_in_cooldown:
  "\<not> isTouching coolingState \<and> alertCooldown coolingState \<and>
   isTouching (handleTouchState_detect_js True True 1032 coolingState) \<and>
   touchCount (handleTouchState_detect_js True True 1032 coolingState) = touchCount coolingState \<and>
   lastTouchTime (handleTouchState_detect_js True True 1032 coolingState) = lastTouchTime coolingState \<and>
   emitted (handleTouchState_detect_js True True 1032 coolingState) = emitted coolingState"
  by (simp add: coolingState_fields handleTouchState_detect_js_def Let_def)

text \<open>
  C3, amended. In the monitor with posture detection and repeat timers, a rising edge of
  a behaviour's detection boolean (true in this frame, false in the previous one) always
  triggers exactly one onset alert, adds exactly 1 to the behaviour's counter and
  records the time of the event, whatever the cooldown flag and the cooldown setting
  are; over any sequence of frames and timer ticks the onset alerts of a behaviour are as
  many as the rising edges of its signal. The onset starts the behaviour's repeat timer,
  and the behaviour's \<open>alertCooldownMs\<close> is the period of that timer. In
  \<open>src/detect.js\<close> a rising edge raises the onset only while the flag \<open>alertCooldown\<close> is
  clear; the onset sets the flag and hands the host a timeout of \<open>alertCooldownMs\<close> whose
  callback clears it. While the flag is set a rising edge changes neither the counter nor
  the time nor the effects emitted, no frame clears the flag, and the flag is clear once
  the host has run the pending timeout.
\<close>

theorem onset_on_rising_edge:
  "(\<not> isTouching st \<longrightarrow>
      touchCount (handleTouchState True faceVisible now st) = touchCount st + 1 \<and>
      lastTouchTime (handleTouchState True faceVisible now st) = Some now \<and>
      emitted (handleTouchState True faceVisible now st) =
        emitted st @ Alert TouchOnset # sinkRequests (settings st) 440 150 \<and>
      alerts TouchOnset (handleTouchState True faceVisible now st) = alerts TouchOnset st + 1 \<and>
      continuousBeepTimer (handleTouchState True faceVisible now st) = Some (nextTimerId st) \<and>
      (nextTimerId st, TouchRepeat, alertCooldownMs (settings st))
        \<in> set (intervals (handleTouchState True faceVisible now st))) \<and>
   (\<not> isBadPosture st \<longrightarrow>
      postureAlertCount (handlePostureState True now st) = postureAlertCount st + 1 \<and>
      lastPostureAlertTime (handlePostureState True now st) = Some now \<and>
      emitted (handlePostureState True now st) =
        emitted st @ Alert PostureOnset # sinkRequests (settings st) 330 200 \<and>
      alerts PostureOnset (handlePostureState True now st) = alerts PostureOnset st + 1 \<and>
      postureBeepTimer (handlePostureState True now st) = Some (nextTimerId st) \<and>
      (nextTimerId st, PostureRepeat, posture_alertCooldownMs (posture (settings st)))
        \<in> set (intervals (handlePostureState True now st))) \<and>
   alerts TouchOnset (run evs st) = alerts TouchOnset st + touchEdges (isTouching st) evs \<and>
   alerts PostureOnset (run evs st) = alerts PostureOnset st + postureEdges (isBadPosture st) evs \<and>
   (\<not> isTouching st \<and> \<not> alertCooldown st \<longrightarrow>
      touchCount (handleTouchState_detect_js True faceVisible now st) = touchCount st + 1 \<and>
      lastTouchTime (handleTouchState_detect_js True faceVisible now st) = Some now \<and>
      emitted (handleTouchState_detect_js True faceVisible now st) =
        emitted st @ Alert TouchOnset # sinkRequests (settings st) 440 150 \<and>
      alertCooldown (handleTouchState_detect_js True faceVisible now st) \<and>
      timeouts (handleTouchState_detect_js True faceVisible now st) =
        timeouts st @ [(nextTimerId st, alertCooldownMs (settings st))]) \<and>
   (\<not> isTouching st \<and> alertCooldown st \<longrightarrow>
      touchCount (handleTouchState_detect_js True faceVisible now st) = touchCount st \<and>
      lastTouchTime (handleTouchState_detect_js True faceVisible now st) = lastTouchTime st \<and>
      emitted (handleTouchState_detect_js True faceVisible now st) = emitted st \<and>
      timeouts (handleTouchState_detect_js True faceVisible now st) = timeouts st) \<and>
   (alertCooldown st \<longrightarrow> alertCooldown (handleTouchState_detect_js touchDetected faceVisible now st)) \<and>
   (h \<in> pendingTimeouts st \<longrightarrow>
      \<not> alertCooldown (fireTimeout h st) \<and> h \<notin> pendingTimeouts (fireTimeout h st) \<and>
      isTouching (fireTimeout h st) = isTouching st \<and>
      touchCount (fireTimeout h st) = touchCount st \<and>
      lastTouchTime (fireTimeout h st) = lastTouchTime st \<and>
      emitted (fireTimeout h st) = emitted st)"
proof (intro conjI impI)
  assume t: "\<not> isTouching st"
  show "touchCount (handleTouchState True faceVisible now st) = touchCount st + 1"
    and "lastTouchTime (handleTouchState True faceVisible now st) = Some now"
    and "emitted (handleTouchState True faceVisible now st) =
        emitted st @ Alert TouchOnset # sinkRequests (settings st) 440 150"
    and "continuousBeepTimer (handleTouchState True faceVisible now st) = Some (nextTimerId st)"
    by (simp_all add: touch_onset[OF t])
  show "alerts TouchOnset (handleTouchState True faceVisible now st) = alerts TouchOnset st + 1"
    by (simp add: touch_onset_alerts[OF t])
  show "(nextTimerId st, TouchRepeat, alertCooldownMs (settings st))
        \<in> set (intervals (handleTouchState True faceVisible now st))"
    by (rule onset_starts_timer(1)[OF t])
next
  assume p: "\<not> isBadPosture st"
  show "postureAlertCount (handlePostureState True now st) = postureAlertCount st + 1"
    and "lastPostureAlertTime (handlePostureState True now st) = Some now"
    and "emitted (handlePostureState True now st) =
        emitted st @ Alert PostureOnset # sinkRequests (settings st) 330 200"
    and "postureBeepTimer (handlePostureState True now st) = Some (nextTimerId st)"
    by (simp_all add: posture_onset[OF p])
  show "alerts PostureOnset (handlePostureState True now st) = alerts PostureOnset st + 1"
    by (simp add: posture_onset_alerts[OF p])
  show "(nextTimerId st, PostureRepeat, posture_alertCooldownMs (posture (settings st)))
        \<in> set (intervals (handlePostureState True now st))"
    by (rule onset_starts_timer(2)[OF p])
next
  show "alerts TouchOnset (run evs st) = alerts TouchOnset st + touchEdges (isTouching st) evs"
    and "alerts PostureOnset (run evs st) = alerts PostureOnset st + postureEdges (isBadPosture st) evs"
    using onsets_are_edges[of evs st] by simp_all
next
  assume a: "\<not> isTouching st \<and> \<not> alertCooldown st"
  then have eq: "handleTouchState_detect_js True faceVisible now st =
     st\<lparr>wasTouching := False, isTouching := True, touchCount := touchCount st + 1,
        lastTouchTime := Some now,
        emitted := emitted st @ Alert TouchOnset # sinkRequests (settings st) 440 150,
        alertCooldown := True,
        timeouts := timeouts st @ [(nextTimerId st, alertCooldownMs (settings st))],
        nextTimerId := Suc (nextTimerId st)\<rparr>"
    by (intro detect_js_onset) simp_all
  show "touchCount (handleTouchState_detect_js True faceVisible now st) = touchCount st + 1"
    and "lastTouchTime (handleTouchState_detect_js True faceVisible now st) = Some now"
    and "emitted (handleTouchState_detect_js True faceVisible now st) =
        emitted st @ Alert TouchOnset # sinkRequests (settings st) 440 150"
    and "alertCooldown (handleTouchState_detect_js True faceVisible now st)"
    and "timeouts (handleTouchState_detect_js True faceVisible now st) =
        timeouts st @ [(nextTimerId st, alertCooldownMs (settings st))]"
    unfolding eq by simp_all
next
  assume a: "\<not> isTouching st \<and> alertCooldown st"
  then have eq: "handleTouchState_detect_js True faceVisible now st =
     st\<lparr>wasTouching := isTouching st, isTouching := True\<rparr>"
    by (intro detect_js_quiet) simp
  show "touchCount (handleTouchState_detect_js True faceVisible now st) = touchCount st"
    and "lastTouchTime (handleTouchState_detect_js True faceVisible now st) = lastTouchTime st"
    and "emitted (handleTouchState_detect_js True faceVisible now st) = emitted st"
    and "timeouts (handleTouchState_detect_js True faceVisible now st) = timeouts st"
    unfolding eq by simp_all
next
  assume "alertCooldown st"
  then show "alertCooldown (handleTouchState_detect_js touchDetected faceVisible now st)"
    by (rule detect_js_flag_stays)
next
  assume p: "h \<in> pendingTimeouts st"
  show "\<not> alertCooldown (fireTimeout h st)"
    and "h \<notin> pendingTimeouts (fireTimeout h st)"
    and "isTouching (fireTimeout h st) = isTouching st"
    and "touchCount (fireTimeout h st) = touchCount st"
    and "lastTouchTime (fireTimeout h st) = lastTouchTime st"
    and "emitted (fireTimeout h st) = emitted st"
    by (simp_all add: fireTimeout_pending[OF p])
qed

text \<open>
  In a state whose cooldown flag is set, with the timeout of 3000 ms pending, the monitor
  with repeat timers raises the onset of a new touch and of bad posture all the same;
  \<open>src/detect.js\<close> does not, until the host has run the timeout.
\<close>

theorem onset_on_rising_edge_witness:
  "\<not> isTouching coolingState \<and> \<not> isBadPosture coolingState \<and> alertCooldown coolingState \<and>
   touchCount coolingState = 1 \<and> timeouts coolingState = [(0, 3000)] \<and>
   0 \<in> pendingTimeouts coolingState \<and>
   touchCount (handleTouchState True True 1032 coolingState) = 2 \<and>
   lastTouchTime (handleTouchState True True 1032 coolingState) = Some 1032 \<and>
   postureAlertCount (handlePostureState True 1032 coolingState) = 1 \<and>
   touchCount (handleTouchState_detect_js True True 1032 coolingState) = 1 \<and>
   \<not> alertCooldown (fireTimeout 0 coolingState) \<and>
   touchCount (handleTouchState_detect_js True True 4000 (fireTimeout 0 coolingState)) = 2 \<and>
   alerts TouchOnset
     (run [TouchFrame True True 1000, TouchFrame True True 1016, Fire 0, TouchFrame False True 1032,
           TouchFrame True True 1048] state100) = 2"
proof -
  have pend: "0 \<in> pendingTimeouts coolingState"
    by (simp add: pendingTimeouts_def coolingState_fields)
  have z: "alerts TouchOnset state100 = 0" by (simp add: alerts_def state100_idle)
  show ?thesis
    using onset_on_rising_edge[of coolingState True 1032 "[]" True 0]
          onset_on_rising_edge[of "fireTimeout 0 coolingState" True 4000 "[]" True 0]
          onset_on_rising_edge[of state100 True 0
            "[TouchFrame True True 1000, TouchFrame True True 1016, Fire 0,
              TouchFrame False True 1032, TouchFrame True True 1048]" True 0]
          pend
    by (simp add: coolingState_fields state100_idle z)
qed



text \<open>
  C5. \<open>stopMonitoring\<close> cancels both repeat timers and clears the \<open>isBadPosture\<close> and
  \<open>wasBadPosture\<close> flags, but it leaves \<open>isTouching\<close> and \<open>wasTouching\<close> as they are: the
  touch state machine is not reset. Stopped during a touch, the monitor keeps
  \<open>isTouching\<close> set, and when it runs again a touch in its first frame is no rising edge:
  no onset alert, no count, no repeat timer. Switching posture detection off cancels
  only the posture timer and resets only the posture flags.
\<close>

theorem stopMonitoring_keeps_touch_flags:
  "continuousBeepTimer (stopMonitoring st) = None \<and>
   postureBeepTimer (stopMonitoring st) = None \<and>
   \<not> isBadPosture (stopMonitoring st) \<and> \<not> wasBadPosture (stopMonitoring st) \<and>
   isTouching (stopMonitoring st) = isTouching st \<and>
   wasTouching (stopMonitoring st) = wasTouching st \<and>
   isTouching touchingState \<and> isBadPosture touchingState \<and>
   isTouching (stopMonitoring touchingState) \<and>
   liveHandles (stopMonitoring touchingState) = {} \<and>
   touchCount (handleTouchState True True 2000 (stopMonitoring touchingState)) =
     touchCount (stopMonitoring touchingState) \<and>
   emitted (handleTouchState True True 2000 (stopMonitoring touchingState)) =
     emitted (stopMonitoring touchingState) \<and>
   continuousBeepTimer (handleTouchState True True 2000 (stopMonitoring touchingState)) = None \<and>
   postureBeepTimer (postureToggleChange False st) = None \<and>
   \<not> isBadPosture (postureToggleChange False st) \<and>
   \<not> wasBadPosture (postureToggleChange False st) \<and>
   continuousBeepTimer (postureToggleChange False st) = continuousBeepTimer st \<and>
   isTouching (postureToggleChange False st) = isTouching st \<and>
   wasTouching (postureToggleChange False st) = wasTouching st \<and>
   liveHandles (postureToggleChange False touchingState) = {0}"
proof -
  have "liveHandles (stopMonitoring touchingState) \<subseteq> liveHandles touchingState"
    by (auto simp: stopMonitoring_def Let_def stopContinuousBeep_def
        stopPostureContinuousAlert_def clearInterval_def liveHandles_def split: option.splits)
  moreover have "0 \<notin> liveHandles (stopMonitoring touchingState)"
    "1 \<notin> liveHandles (stopMonitoring touchingState)"
    by (rule stopMonitoring_handles, simp add: touchingState_fields)+
  ultimately have live: "liveHandles (stopMonitoring touchingState) = {}"
    by (auto simp: touchingState_fields)
  have again: "handleTouchState True True 2000 (stopMonitoring touchingState) =
      (stopMonitoring touchingState)\<lparr>wasTouching := True\<rparr>"
    by (rule handleTouchState_level) (simp add: stopMonitoring_fields touchingState_fields)
  have gone: "1 \<notin> liveHandles (postureToggleChange False touchingState)"
    by (rule postureToggleChange_handles(1)) (simp add: touchingState_fields)
  have kept: "h \<in> liveHandles (postureToggleChange False touchingState) \<longleftrightarrow> h \<in> {0, 1}"
    if "h \<noteq> 1" for h
    using postureToggleChange_handles(2)[of touchingState h] that
    by (simp add: touchingState_fields)
  have toggle: "liveHandles (postureToggleChange False touchingState) = {0}"
  proof (rule set_eqI)
    fix h
    show "h \<in> liveHandles (postureToggleChange False touchingState) \<longleftrightarrow> h \<in> {0}"
    proof (cases "h = 1")
      case True
      with gone show ?thesis by simp
    next
      case False
      with kept[OF False] show ?thesis by simp
    qed
  qed
  show ?thesis
    unfolding again
    by (simp add: stopMonitoring_fields postureToggleChange_off touchingState_fields live toggle)
qed

end
